theory Spec2Isabelle
  imports Main "HOL-Library.AList"
begin

section \<open>JavaScript values\<close>

text \<open>
  The values that \<open>JSON.parse\<close> returns and that the collaborator hands back, with
  \<open>undefined\<close> for what is absent. Numbers are the integers; the properties of an
  object are in the order of \<open>Object.entries\<close>, each key once.
\<close>

datatype jsval =
  Undefined
  | Null
  | Bool bool
  | Num int
  | Str string
  | Arr "jsval list"
  | Obj "(string \<times> jsval) list"

text \<open>What a \<open>throw\<close> throws: an \<open>Error\<close> with its message, or another value.\<close>

datatype thrown = ErrorObj string | NonError jsval

text \<open>\<open>!!v\<close>.\<close>

fun truthy :: "jsval \<Rightarrow> bool" where
  "truthy Undefined = False"
| "truthy Null = False"
| "truthy (Bool b) = b"
| "truthy (Num n) = (n \<noteq> 0)"
| "truthy (Str s) = (s \<noteq> [])"
| "truthy (Arr xs) = True"
| "truthy (Obj ps) = True"

text \<open>\<open>v || d\<close>.\<close>

definition js_or :: "jsval \<Rightarrow> jsval \<Rightarrow> jsval" where
  "js_or v d = (if truthy v then v else d)"

text \<open>
  \<open>o.k\<close> for a named property \<open>k\<close> of a value that is neither \<open>null\<close> nor
  \<open>undefined\<close>: the property of an object, \<open>undefined\<close> on anything else (the names
  read this way are no property of an array, a string, a number or a boolean).
\<close>

definition getp :: "jsval \<Rightarrow> string \<Rightarrow> jsval" where
  "getp v k =
     (case v of
        Obj ps \<Rightarrow> (case map_of ps k of Some x \<Rightarrow> x | None \<Rightarrow> Undefined)
      | _ \<Rightarrow> Undefined)"

text \<open>Decimal digits of a natural number, and \<open>'...'\<close> around a text.\<close>

fun digits :: "nat \<Rightarrow> string" where
  "digits n =
     (if n < 10 then [char_of (48 + n)] else digits (n div 10) @ [char_of (48 + n mod 10)])"

definition quoted :: "string \<Rightarrow> string" where
  "quoted s = [CHR 0x27] @ s @ [CHR 0x27]"

text \<open>
  \<open>String(v)\<close>, which a template literal \<open>`${v}`\<close> applies, is taken from the
  platform: it returns a text or throws (a \<open>TypeError\<close> for an object whose
  \<open>toString\<close> is not callable).
\<close>

type_synonym stringifier = "jsval \<Rightarrow> thrown + string"

text \<open>
  Reading a property of \<open>undefined\<close> or \<open>null\<close> throws a \<open>TypeError\<close>; the
  message is the one Node.js gives.
\<close>

definition typeError :: "jsval \<Rightarrow> string \<Rightarrow> thrown" where
  "typeError v k =
     ErrorObj (''Cannot read properties of '' @ (if v = Null then ''null'' else ''undefined'') @
               '' (reading '' @ quoted k @ '')'')"

definition getp_strict :: "jsval \<Rightarrow> string \<Rightarrow> thrown + jsval" where
  "getp_strict v k =
     (if v = Undefined \<or> v = Null then Inl (typeError v k) else Inr (getp v k))"

text \<open>\<open>v.length\<close>.\<close>

definition js_length :: "jsval \<Rightarrow> thrown + jsval" where
  "js_length v =
     (case v of
        Arr xs \<Rightarrow> Inr (Num (int (length xs)))
      | Str s \<Rightarrow> Inr (Num (int (length s)))
      | _ \<Rightarrow> getp_strict v ''length'')"

text \<open>The own enumerable properties that \<open>{...v}\<close> copies.\<close>

definition spread :: "jsval \<Rightarrow> (string \<times> jsval) list" where
  "spread v =
     (case v of
        Obj ps \<Rightarrow> ps
      | Arr xs \<Rightarrow> zip (map digits [0..<length xs]) xs
      | Str s \<Rightarrow> zip (map digits [0..<length s]) (map (\<lambda>c. Str [c]) s)
      | _ \<Rightarrow> [])"

section \<open>The backend collaborator\<close>

text \<open>
  One invocation of a method of \<open>CaspioClient\<close> with its arguments. The collaborator
  answers an invocation, given the invocations this request made before it, with a
  value or with a throw.
\<close>

datatype backend_call = Call string "jsval list"

type_synonym client = "backend_call list \<Rightarrow> backend_call \<Rightarrow> thrown + jsval"

text \<open>
  \<open>await client.m(as)\<close> after the invocations \<open>log\<close>, continued by \<open>k\<close> when it
  returns; a throw ends the computation. The result carries the invocations made.
\<close>

definition invoke :: "client \<Rightarrow> backend_call list \<Rightarrow> string \<Rightarrow> jsval list \<Rightarrow>
    (backend_call list \<Rightarrow> jsval \<Rightarrow> backend_call list \<times> (thrown + 'a)) \<Rightarrow>
    backend_call list \<times> (thrown + 'a)" where
  "invoke cl log m as k =
     (case cl log (Call m as) of
        Inl e \<Rightarrow> (log @ [Call m as], Inl e)
      | Inr v \<Rightarrow> k (log @ [Call m as]) v)"

text \<open>What a JSON-RPC result carries.\<close>

datatype payload =
  Plain jsval
    \<comment> \<open>the value itself\<close>
  | ToolText jsval
    \<comment> \<open>\<open>{content: [{type: 'text', text: JSON.stringify(v, null, 2)}]}\<close>\<close>
  | ToolTextError jsval
    \<comment> \<open>the same with \<open>isError: true\<close>\<close>
  | ResourceContents jsval jsval
    \<comment> \<open>\<open>{contents: [{uri, mimeType: 'application/json', text: JSON.stringify(v, null, 2)}]}\<close>\<close>

section \<open>Data model of the remote server\<close>

text \<open>
  The three interfaces of the HTTP server. \<open>PendingAuth\<close> and the entries of
  \<open>authCodes\<close> have fields whose names the session record already uses
  (\<open>createdAt\<close>, \<open>expiresAt\<close>, the three credential fields); those carry the prefix
  \<open>pending\<close> or \<open>code\<close> here. Times are the millisecond integers of \<open>Date.now()\<close>.
\<close>

record OAuthSession =
  caspioBaseUrl :: string
  caspioClientId :: string
  caspioClientSecret :: string
  accessToken :: string
  refreshToken :: string
  expiresAt :: int
  createdAt :: int

record PendingAuth =
  codeChallenge :: string
  codeChallengeMethod :: string
  redirectUri :: string
  state :: string
  pendingCaspioBaseUrl :: "string option"
  pendingCaspioClientId :: "string option"
  pendingCaspioClientSecret :: "string option"
  pendingCreatedAt :: int

record AuthCode =
  sessionId :: string
  codeExpiresAt :: int

text \<open>
  The content of the sessions file as \<open>loadSessions\<close> meets it: no file, a file whose
  reading or parsing throws, or a JSON document of session records, its entries in the
  order of \<open>Object.entries\<close>. \<open>JSON.stringify\<close> followed by \<open>JSON.parse\<close> is taken
  as the identity on such a document (strings and integer times).
\<close>

datatype file_contents =
  NoFile
  | Unparsable
  | Document "(string \<times> OAuthSession) list"

text \<open>
  A JavaScript \<open>Map\<close> iterates in insertion order, \<open>set\<close> on a present key replaces
  the value in place and on an absent key appends, \<open>delete\<close> removes the entry: an
  association list under \<open>AList.update\<close> and \<open>AList.delete\<close>, looked up with
  \<open>map_of\<close>.
\<close>

record server_state =
  sessions :: "(string \<times> OAuthSession) list"
  pendingAuths :: "(string \<times> PendingAuth) list"
  authCodes :: "(string \<times> AuthCode) list"
  sessionsFile :: file_contents

text \<open>What a handler sends.\<close>

datatype response =
  JsonError nat string "string option"
    \<comment> \<open>\<open>sendJson(res, status, {error, error_description})\<close>\<close>
  | HtmlForm nat string "string option"
    \<comment> \<open>\<open>sendHtml(res, status, getAuthorizationPageHtml(authId, .., error))\<close>\<close>
  | Redirect string string "string option"
    \<comment> \<open>302 to \<open>redirectUri\<close> with \<open>code\<close> and, when non-empty, \<open>state\<close>\<close>
  | TokenJson string string
    \<comment> \<open>200 \<open>{access_token, token_type: 'Bearer', expires_in: 86400, refresh_token, scope}\<close>\<close>
  | RpcResult nat jsval payload
    \<comment> \<open>\<open>sendJson(res, status, {jsonrpc: '2.0', id, result})\<close>\<close>
  | RpcError nat jsval int string
    \<comment> \<open>\<open>sendJson(res, status, {jsonrpc: '2.0', id, error: {code, message}})\<close>\<close>
  | Unauthorized
    \<comment> \<open>401 \<open>{error: 'unauthorized'}\<close> with the \<open>WWW-Authenticate\<close> hint\<close>
  | Uncaught
    \<comment> \<open>an exception left the handler; the server's \<open>catch\<close> answers 500 \<open>internal_error\<close>\<close>

section \<open>Request parameters\<close>

text \<open>\<open>URLSearchParams.get\<close> returns the first value of a name, or \<open>null\<close>.\<close>

type_synonym params = "(string \<times> string) list"

definition param_get :: "params \<Rightarrow> string \<Rightarrow> string option" where
  "param_get ps name = map_of ps name"

text \<open>\<open>!x\<close> on a \<open>string | null\<close>: \<open>null\<close> and the empty string are falsy.\<close>

definition absent :: "string option \<Rightarrow> bool" where
  "absent x = (case x of None \<Rightarrow> True | Some v \<Rightarrow> v = [])"

text \<open>\<open>x || d\<close> on a \<open>string | null\<close>.\<close>

definition or_else :: "string option \<Rightarrow> string \<Rightarrow> string" where
  "or_else x d = (case x of None \<Rightarrow> d | Some v \<Rightarrow> if v = [] then d else v)"

text \<open>\<open>s.replace(/\/$/, '')\<close>: one trailing slash is removed.\<close>

definition strip_trailing_slash :: "string \<Rightarrow> string" where
  "strip_trailing_slash s = (if s \<noteq> [] \<and> last s = CHR ''/'' then butlast s else s)"

text \<open>
  \<open>verifyCodeChallenge(verifier, challenge, method)\<close>, with the digest
  \<open>crypto.createHash('sha256').update(v).digest('base64url')\<close> as a parameter. No
  handler calls it.
\<close>

definition verifyCodeChallenge :: "(string \<Rightarrow> string) \<Rightarrow> string \<Rightarrow> string \<Rightarrow> string \<Rightarrow> bool" where
  "verifyCodeChallenge sha256_base64url verifier challenge method =
     (if method = ''plain'' then verifier = challenge
      else if method = ''S256'' then sha256_base64url verifier = challenge
      else False)"

section \<open>Session persistence\<close>

text \<open>
  The own properties of a plain object, as \<open>Object.entries\<close> and \<open>JSON.stringify\<close>
  list them: first the keys that are array indices (the decimal numeral, without
  leading zeros, of a number up to \<open>2^32 - 2\<close>) in ascending order, then the other
  keys in the order of their creation. \<open>data[key] = value\<close> replaces the value of a
  key the object has and creates the property otherwise; for the key \<open>__proto__\<close> it
  sets the prototype and creates no property.
\<close>

definition decimal_value :: "string \<Rightarrow> nat" where
  "decimal_value k = foldl (\<lambda>n c. 10 * n + (of_char c - 48)) 0 k"

definition is_array_index :: "string \<Rightarrow> bool" where
  "is_array_index k =
     (k \<noteq> [] \<and> list_all (\<lambda>c. c \<in> set ''0123456789'') k \<and>
      (k = ''0'' \<or> hd k \<noteq> CHR ''0'') \<and> length k \<le> 10 \<and>
      decimal_value k < 4294967295)"

definition object_set :: "string \<Rightarrow> 'v \<Rightarrow> (string \<times> 'v) list \<Rightarrow> (string \<times> 'v) list" where
  "object_set k v data =
     (if k = ''__proto__'' then data
      else if map_of data k \<noteq> None then AList.update k v data
      else if is_array_index k then
        takeWhile (\<lambda>(k', v'). is_array_index k' \<and> decimal_value k' < decimal_value k) data @
        [(k, v)] @
        dropWhile (\<lambda>(k', v'). is_array_index k' \<and> decimal_value k' < decimal_value k) data
      else data @ [(k, v)])"

text \<open>The identifiers \<open>generateId()\<close> returns: 64 hexadecimal digits.\<close>

definition generated_id :: "string \<Rightarrow> bool" where
  "generated_id k = (length k = 64 \<and> list_all (\<lambda>c. c \<in> set ''0123456789abcdef'') k)"

text \<open>
  \<open>saveSessions\<close> copies the map into a plain object and writes it; a failing write
  is caught and logged, and leaves the file as it was. \<open>writeOk\<close> says whether
  \<open>fs.writeFileSync\<close> returned.
\<close>

definition saveSessions :: "bool \<Rightarrow> server_state \<Rightarrow> server_state" where
  "saveSessions writeOk s =
     (if writeOk
      then s\<lparr>sessionsFile :=
             Document (foldl (\<lambda>data (key, session). object_set key session data) []
                         (sessions s))\<rparr>
      else s)"

definition setSession :: "bool \<Rightarrow> string \<Rightarrow> OAuthSession \<Rightarrow> server_state \<Rightarrow> server_state" where
  "setSession writeOk sid session s =
     saveSessions writeOk (s\<lparr>sessions := AList.update sid session (sessions s)\<rparr>)"

definition deleteSession :: "bool \<Rightarrow> string \<Rightarrow> server_state \<Rightarrow> server_state \<times> bool" where
  "deleteSession writeOk sid s =
     (let result = (map_of (sessions s) sid \<noteq> None);
          s1 = s\<lparr>sessions := AList.delete sid (sessions s)\<rparr>
      in if result then (saveSessions writeOk s1, result) else (s1, result))"

text \<open>\<open>loadSessions\<close> keeps the entries of the file that expire after \<open>now\<close>.\<close>

definition loadSessions :: "int \<Rightarrow> server_state \<Rightarrow> server_state" where
  "loadSessions now s =
     (case sessionsFile s of
        Document parsed \<Rightarrow>
          s\<lparr>sessions :=
              foldl (\<lambda>m (key, session).
                       if expiresAt session > now then AList.update key session m else m)
                    (sessions s) parsed\<rparr>
      | _ \<Rightarrow> s)"

text \<open>A process start: the three maps are empty, then \<open>loadSessions()\<close> runs.\<close>

definition startup :: "file_contents \<Rightarrow> int \<Rightarrow> server_state" where
  "startup file now =
     loadSessions now
       \<lparr>sessions = [], pendingAuths = [], authCodes = [], sessionsFile = file\<rparr>"

text \<open>The \<open>setInterval\<close> callback, every 60 seconds.\<close>

definition sweep :: "int \<Rightarrow> bool \<Rightarrow> server_state \<Rightarrow> server_state" where
  "sweep now writeOk s =
     (let kept = filter (\<lambda>(key, session). \<not> expiresAt session < now) (sessions s);
          sessionsDeleted = length (sessions s) - length kept;
          s1 = s\<lparr>sessions := kept\<rparr>;
          s2 = (if sessionsDeleted > 0 then saveSessions writeOk s1 else s1)
      in s2\<lparr>pendingAuths :=
               filter (\<lambda>(key, pending). \<not> pendingCreatedAt pending + 600000 < now)
                 (pendingAuths s2),
             authCodes :=
               filter (\<lambda>(key, code). \<not> codeExpiresAt code < now) (authCodes s2)\<rparr>)"

section \<open>OAuth endpoints\<close>

text \<open>
  \<open>generateId()\<close> is \<open>crypto.randomBytes(32).toString('hex')\<close>, 64 hexadecimal
  digits; each handler takes its draws and its readings of \<open>Date.now()\<close> as arguments.
\<close>

definition handleAuthorize :: "server_state \<Rightarrow> params \<Rightarrow> string \<Rightarrow> int \<Rightarrow> server_state \<times> response" where
  "handleAuthorize s ps authId now =
     (let responseType = param_get ps ''response_type'';
          redirectUriP = param_get ps ''redirect_uri'';
          stateP = param_get ps ''state'';
          codeChallengeP = param_get ps ''code_challenge'';
          codeChallengeMethodP = or_else (param_get ps ''code_challenge_method'') ''plain''
      in if responseType \<noteq> Some ''code''
         then (s, JsonError 400 ''unsupported_response_type'' None)
         else if absent redirectUriP
         then (s, JsonError 400 ''invalid_request'' (Some ''redirect_uri required''))
         else (s\<lparr>pendingAuths :=
                   AList.update authId
                     \<lparr>codeChallenge = or_else codeChallengeP [],
                      codeChallengeMethod = codeChallengeMethodP,
                      redirectUri = the redirectUriP,
                      state = or_else stateP [],
                      pendingCaspioBaseUrl = None,
                      pendingCaspioClientId = None,
                      pendingCaspioClientSecret = None,
                      pendingCreatedAt = now\<rparr>
                     (pendingAuths s)\<rparr>,
               HtmlForm 200 authId None))"

text \<open>
  What \<open>new CaspioClient(..)\<close> and \<open>await client.testConnection()\<close> did: returned
  \<open>true\<close>, returned \<open>false\<close>, or threw.
\<close>

datatype conn_outcome = ConnTrue | ConnFalse | ConnThrows thrown

text \<open>
  The environment of one submission: the outcome of the live check, the two draws of
  \<open>generateId()\<close>, the three readings of \<open>Date.now()\<close> in source order, whether the
  file write returned and whether \<open>new URL(pending.redirectUri)\<close> parsed.
\<close>

record submit_env =
  connection :: conn_outcome
  codeDraw :: string
  sessionDraw :: string
  nowExpires :: int
  nowCreated :: int
  nowCode :: int
  submitWriteOk :: bool
  redirectParses :: bool

definition handleAuthorizeSubmit :: "server_state \<Rightarrow> params \<Rightarrow> submit_env \<Rightarrow> server_state \<times> response" where
  "handleAuthorizeSubmit s ps env =
     (let authId = param_get ps ''auth_id'';
          caspioBaseUrlP = map_option strip_trailing_slash (param_get ps ''caspio_base_url'');
          caspioClientIdP = param_get ps ''caspio_client_id'';
          caspioClientSecretP = param_get ps ''caspio_client_secret''
      in if absent authId \<or> map_of (pendingAuths s) (the authId) = None
         then (s, JsonError 400 ''invalid_request'' (Some ''Invalid or expired authorization''))
         else if absent caspioBaseUrlP \<or> absent caspioClientIdP \<or> absent caspioClientSecretP
         then (s, HtmlForm 400 (the authId) (Some ''Please fill in all fields''))
         else (case connection env of
                 ConnFalse \<Rightarrow>
                   (s, HtmlForm 400 (the authId)
                         (Some ''Failed to connect to Caspio. Please check your credentials.''))
               | ConnThrows error \<Rightarrow>
                   (s, HtmlForm 400 (the authId)
                         (Some (''Connection failed: '' @
                                (case error of ErrorObj msg \<Rightarrow> msg
                                 | NonError v \<Rightarrow> ''Unknown error''))))
               | ConnTrue \<Rightarrow>
                   (let pending = (the (map_of (pendingAuths s) (the authId)))
                          \<lparr>pendingCaspioBaseUrl := caspioBaseUrlP,
                           pendingCaspioClientId := caspioClientIdP,
                           pendingCaspioClientSecret := caspioClientSecretP\<rparr>;
                        s1 = s\<lparr>pendingAuths :=
                                 AList.update (the authId) pending (pendingAuths s)\<rparr>;
                        code = codeDraw env;
                        sid = sessionDraw env;
                        s2 = setSession (submitWriteOk env) sid
                               \<lparr>caspioBaseUrl = the caspioBaseUrlP,
                                caspioClientId = the caspioClientIdP,
                                caspioClientSecret = the caspioClientSecretP,
                                accessToken = [],
                                refreshToken = [],
                                expiresAt = nowExpires env + 86400000,
                                createdAt = nowCreated env\<rparr> s1;
                        s3 = s2\<lparr>authCodes :=
                                  AList.update code
                                    \<lparr>sessionId = sid, codeExpiresAt = nowCode env + 600000\<rparr>
                                    (authCodes s2)\<rparr>
                    in if \<not> redirectParses env then (s3, Uncaught)
                       else (s3\<lparr>pendingAuths := AList.delete (the authId) (pendingAuths s3)\<rparr>,
                             Redirect (redirectUri pending) code
                               (if state pending \<noteq> [] then Some (state pending) else None)))))"

text \<open>
  The environment of one token request: the two draws of \<open>generateId()\<close>, the two
  readings of \<open>Date.now()\<close> (the expiry test, the new \<open>expiresAt\<close>) and whether the
  file write returned.
\<close>

record token_env =
  accessDraw :: string
  refreshDraw :: string
  nowCheck :: int
  nowIssue :: int
  tokenWriteOk :: bool

text \<open>The first entry in iteration order whose refresh token is the one presented.\<close>

definition findByRefreshToken :: "(string \<times> OAuthSession) list \<Rightarrow> string \<Rightarrow> (string \<times> OAuthSession) option" where
  "findByRefreshToken m tok = find (\<lambda>(sid, session). refreshToken session = tok) m"

definition handleToken :: "server_state \<Rightarrow> params \<Rightarrow> token_env \<Rightarrow> server_state \<times> response" where
  "handleToken s ps env =
     (let grantType = param_get ps ''grant_type''
      in if grantType = Some ''authorization_code'' then
           (let code = param_get ps ''code'';
                codeVerifier = param_get ps ''code_verifier''
            in if absent code \<or> map_of (authCodes s) (the code) = None
               then (s, JsonError 400 ''invalid_grant'' (Some ''Invalid or expired code''))
               else
                 (let codeData = the (map_of (authCodes s) (the code))
                  in if codeExpiresAt codeData < nowCheck env
                     then (s\<lparr>authCodes := AList.delete (the code) (authCodes s)\<rparr>,
                           JsonError 400 ''invalid_grant'' (Some ''Code expired''))
                     else
                       (case map_of (sessions s) (sessionId codeData) of
                          None \<Rightarrow>
                            (s, JsonError 400 ''invalid_grant'' (Some ''Session not found''))
                        | Some session \<Rightarrow>
                            (let session' = session\<lparr>accessToken := accessDraw env,
                                                   refreshToken := refreshDraw env,
                                                   expiresAt := nowIssue env + 86400000\<rparr>;
                                 s1 = setSession (tokenWriteOk env) (sessionId codeData) session' s
                             in (s1\<lparr>authCodes := AList.delete (the code) (authCodes s1)\<rparr>,
                                 TokenJson (accessDraw env) (refreshDraw env))))))
         else if grantType = Some ''refresh_token'' then
           (let refreshTokenP = param_get ps ''refresh_token''
            in if absent refreshTokenP
               then (s, JsonError 400 ''invalid_request'' (Some ''refresh_token required''))
               else
                 (case findByRefreshToken (sessions s) (the refreshTokenP) of
                    None \<Rightarrow> (s, JsonError 400 ''invalid_grant'' (Some ''Invalid refresh token''))
                  | Some (foundSessionId, foundSession) \<Rightarrow>
                      if foundSessionId = []
                      then (s, JsonError 400 ''invalid_grant'' (Some ''Invalid refresh token''))
                      else
                        (let session' = foundSession\<lparr>accessToken := accessDraw env,
                                                    refreshToken := refreshDraw env,
                                                    expiresAt := nowIssue env + 86400000\<rparr>
                         in (setSession (tokenWriteOk env) foundSessionId session' s,
                             TokenJson (accessDraw env) (refreshDraw env)))))
         else (s, JsonError 400 ''unsupported_grant_type'' None))"

section \<open>The dispatch gate\<close>

text \<open>
  \<open>getSessionFromRequest\<close> reads \<open>req.headers.authorization\<close>, here the header value
  as the handler receives it (\<open>None\<close> when the request has no such header).
\<close>

definition getSessionFromRequest :: "server_state \<Rightarrow> string option \<Rightarrow> OAuthSession option" where
  "getSessionFromRequest s authHeader =
     (case authHeader of
        None \<Rightarrow> None
      | Some h \<Rightarrow>
          if take 7 h \<noteq> ''Bearer '' then None
          else (let token = drop 7 h
                in find (\<lambda>session. accessToken session = token) (map snd (sessions s))))"

text \<open>
  The value of \<open>req.headers.authorization\<close> comes from the HTTP parser of
  Node.js, which is not part of the repository: it is the field value of the header
  line without the spaces and horizontal tabs before and after it.
\<close>

definition is_ows :: "char \<Rightarrow> bool" where
  "is_ows c = (c = CHR '' '' \<or> c = CHR 0x09)"

definition delivered_header :: "string \<Rightarrow> string" where
  "delivered_header raw = rev (dropWhile is_ows (rev (dropWhile is_ows raw)))"

section \<open>Runs of the server\<close>

text \<open>
  One event per handler invocation, with the request and the environment the handler
  meets; \<open>Restart\<close> is a new process reading the file the old one left. A handler
  runs as one step: the single thread of the server is taken not to serve another
  request, nor the sweep, while a handler awaits the collaborator.
\<close>

datatype event =
  Authorize params string int
  | Submit params submit_env
  | Token params token_env
  | Sweep int bool
  | Restart int

fun step :: "server_state \<Rightarrow> event \<Rightarrow> server_state" where
  "step s (Authorize ps authId now) = fst (handleAuthorize s ps authId now)"
| "step s (Submit ps env) = fst (handleAuthorizeSubmit s ps env)"
| "step s (Token ps env) = fst (handleToken s ps env)"
| "step s (Sweep now writeOk) = sweep now writeOk s"
| "step s (Restart now) = startup (sessionsFile s) now"

definition run :: "server_state \<Rightarrow> event list \<Rightarrow> server_state" where
  "run s evs = foldl step s evs"

definition initial :: server_state where
  "initial = \<lparr>sessions = [], pendingAuths = [], authCodes = [], sessionsFile = NoFile\<rparr>"

text \<open>
  The 256 random bits of \<open>generateId()\<close> are idealised as fresh: a draw is non-empty
  and differs from every identifier and token the maps hold.
\<close>

definition ids_in_use :: "server_state \<Rightarrow> string list" where
  "ids_in_use s =
     map fst (sessions s) @ map (accessToken \<circ> snd) (sessions s) @
     map (refreshToken \<circ> snd) (sessions s) @ map fst (pendingAuths s) @
     map fst (authCodes s)"

definition fresh :: "server_state \<Rightarrow> string \<Rightarrow> bool" where
  "fresh s x = (x \<noteq> [] \<and> x \<notin> set (ids_in_use s))"

fun event_ok :: "server_state \<Rightarrow> event \<Rightarrow> bool" where
  "event_ok s (Authorize ps authId now) = fresh s authId"
| "event_ok s (Submit ps env) = (fresh s (codeDraw env) \<and> fresh s (sessionDraw env))"
| "event_ok s (Token ps env) = (fresh s (accessDraw env) \<and> fresh s (refreshDraw env))"
| "event_ok s (Sweep now writeOk) = True"
| "event_ok s (Restart now) = True"

fun valid_run :: "server_state \<Rightarrow> event list \<Rightarrow> bool" where
  "valid_run s [] = True"
| "valid_run s (e # es) = (event_ok s e \<and> valid_run (step s e) es)"

text \<open>
  The invariant of the session map: distinct keys, issued (non-empty) access tokens
  pairwise distinct, issued refresh tokens pairwise distinct, and the two tokens of a
  session issued together.
\<close>

definition issued :: "string list \<Rightarrow> string list" where
  "issued ts = filter (\<lambda>t. t \<noteq> []) ts"

definition store_ok :: "(string \<times> OAuthSession) list \<Rightarrow> bool" where
  "store_ok ss =
     (distinct (map fst ss) \<and>
      distinct (issued (map (accessToken \<circ> snd) ss)) \<and>
      distinct (issued (map (refreshToken \<circ> snd) ss)) \<and>
      list_all (\<lambda>(sid, session). (accessToken session = []) = (refreshToken session = [])) ss)"

fun file_ok :: "file_contents \<Rightarrow> bool" where
  "file_ok (Document d) = store_ok d"
| "file_ok _ = True"

definition state_ok :: "server_state \<Rightarrow> bool" where
  "state_ok s = (store_ok (sessions s) \<and> file_ok (sessionsFile s))"

section \<open>The command executor of the remote server\<close>

definition ret :: "backend_call list \<Rightarrow> 'a \<Rightarrow> backend_call list \<times> (thrown + 'a)" where
  "ret log v = (log, Inr v)"

text \<open>\<open>{.., count: v.length}\<close>: reading the length may throw.\<close>

definition with_count :: "backend_call list \<Rightarrow> jsval \<Rightarrow> (jsval \<Rightarrow> jsval) \<Rightarrow>
    backend_call list \<times> (thrown + jsval)" where
  "with_count log v f = (case js_length v of Inl e \<Rightarrow> (log, Inl e) | Inr n \<Rightarrow> (log, Inr (f n)))"

text \<open>
  A template literal with one hole, or two, filled left to right: \<open>String\<close> of a
  value may throw.
\<close>

definition render :: "stringifier \<Rightarrow> backend_call list \<Rightarrow> jsval \<Rightarrow> (string \<Rightarrow> 'a) \<Rightarrow>
    backend_call list \<times> (thrown + 'a)" where
  "render str log v f = (case str v of Inl e \<Rightarrow> (log, Inl e) | Inr t \<Rightarrow> (log, Inr (f t)))"

definition render2 :: "stringifier \<Rightarrow> backend_call list \<Rightarrow> jsval \<Rightarrow> jsval \<Rightarrow>
    (string \<Rightarrow> string \<Rightarrow> 'a) \<Rightarrow> backend_call list \<times> (thrown + 'a)" where
  "render2 str log v w f =
     (case str v of
        Inl e \<Rightarrow> (log, Inl e)
      | Inr t \<Rightarrow> (case str w of Inl e \<Rightarrow> (log, Inl e) | Inr u \<Rightarrow> (log, Inr (f t u))))"

definition notConfirmed :: thrown where
  "notConfirmed = ErrorObj ''Deletion not confirmed. Set confirm=true to proceed.''"

definition success_message :: "string \<Rightarrow> jsval" where
  "success_message m = Obj [(''success'', Bool True), (''message'', Str m)]"

text \<open>
  \<open>executeTool(name, args, client)\<close>: the \<open>switch\<close> in source order; the invocations
  made come with the outcome. \<open>str\<close> is the platform's \<open>String\<close>.
\<close>

definition executeTool :: "stringifier \<Rightarrow> client \<Rightarrow> jsval \<Rightarrow> jsval \<Rightarrow>
    backend_call list \<times> (thrown + payload)" where
  "executeTool str cl name args =
     (let arg = getp args;
          result =
            (if name = Str ''caspio_list_tables'' then
               invoke cl [] ''listTables'' [] (\<lambda>log v. ret log (Obj [(''tables'', v)]))
             else if name = Str ''caspio_get_table_schema'' then
               invoke cl [] ''getTableDefinition'' [arg ''tableName''] ret
             else if name = Str ''caspio_create_table'' then
               invoke cl [] ''createTable''
                 [Obj [(''Name'', arg ''name''), (''Note'', arg ''note''),
                       (''Columns'', arg ''columns'')]]
                 (\<lambda>log v. render str log (arg ''name'')
                    (\<lambda>t. success_message (''Table '' @ quoted t @ '' created successfully'')))
             else if name = Str ''caspio_delete_table'' then
               (if \<not> truthy (arg ''confirm'') then ([], Inl notConfirmed)
                else invoke cl [] ''deleteTable'' [arg ''tableName'']
                  (\<lambda>log v. render str log (arg ''tableName'')
                     (\<lambda>t. success_message (''Table '' @ quoted t @ '' deleted''))))
             else if name = Str ''caspio_add_field'' then
               invoke cl [] ''addField'' [arg ''tableName'', arg ''field'']
                 (\<lambda>log v. render str log (arg ''tableName'')
                    (\<lambda>t. success_message (''Field added to '' @ quoted t)))
             else if name = Str ''caspio_delete_field'' then
               (if \<not> truthy (arg ''confirm'') then ([], Inl notConfirmed)
                else invoke cl [] ''deleteField'' [arg ''tableName'', arg ''fieldName'']
                  (\<lambda>log v. render2 str log (arg ''fieldName'') (arg ''tableName'')
                     (\<lambda>t u. success_message
                        (''Field '' @ quoted t @ '' deleted from '' @ quoted u))))
             else if name = Str ''caspio_get_records'' then
               invoke cl [] ''getRecords''
                 [arg ''tableName'',
                  Obj [(''where'', arg ''where''), (''orderBy'', arg ''orderBy''),
                       (''limit'', arg ''limit''), (''pageNumber'', arg ''pageNumber''),
                       (''pageSize'', arg ''pageSize''), (''select'', arg ''select''),
                       (''groupBy'', arg ''groupBy'')]]
                 (\<lambda>log records. with_count log records
                    (\<lambda>n. Obj [(''records'', records), (''count'', n)]))
             else if name = Str ''caspio_create_record'' then
               invoke cl [] ''createRecord'' [arg ''tableName'', arg ''record'']
                 (\<lambda>log v. ret log (Obj [(''success'', Bool True), (''record'', v)]))
             else if name = Str ''caspio_create_records'' then
               invoke cl [] ''createRecords'' [arg ''tableName'', arg ''records'']
                 (\<lambda>log createdRecords. with_count log createdRecords
                    (\<lambda>n. Obj [(''success'', Bool True), (''records'', createdRecords),
                              (''count'', n)]))
             else if name = Str ''caspio_update_records'' then
               invoke cl [] ''updateRecords'' [arg ''tableName'', arg ''updates'', arg ''where'']
                 (\<lambda>log v. ret log (Obj [(''success'', Bool True), (''recordsAffected'', v)]))
             else if name = Str ''caspio_delete_records'' then
               (if \<not> truthy (arg ''confirm'') then ([], Inl notConfirmed)
                else invoke cl [] ''deleteRecords'' [arg ''tableName'', arg ''where'']
                  (\<lambda>log v. ret log (Obj [(''success'', Bool True), (''recordsDeleted'', v)])))
             else if name = Str ''caspio_list_views'' then
               invoke cl [] ''listViews'' [] (\<lambda>log v. ret log (Obj [(''views'', v)]))
             else if name = Str ''caspio_get_view_schema'' then
               invoke cl [] ''getViewDefinition'' [arg ''viewName''] ret
             else if name = Str ''caspio_get_view_records'' then
               invoke cl [] ''getViewRecords''
                 [arg ''viewName'',
                  Obj [(''where'', arg ''where''), (''orderBy'', arg ''orderBy''),
                       (''limit'', arg ''limit''), (''pageNumber'', arg ''pageNumber''),
                       (''pageSize'', arg ''pageSize''), (''select'', arg ''select'')]]
                 (\<lambda>log viewRecords. with_count log viewRecords
                    (\<lambda>n. Obj [(''records'', viewRecords), (''count'', n)]))
             else if name = Str ''caspio_list_applications'' then
               invoke cl [] ''listApplications'' []
                 (\<lambda>log v. ret log (Obj [(''applications'', v)]))
             else if name = Str ''caspio_get_application'' then
               invoke cl [] ''getApplication'' [arg ''appName''] ret
             else if name = Str ''caspio_list_files'' then
               invoke cl [] ''listFiles'' [js_or (arg ''folderPath'') (Str ''/'')]
                 (\<lambda>log v. ret log (Obj [(''files'', v)]))
             else if name = Str ''caspio_get_file_metadata'' then
               invoke cl [] ''getFileMetadata'' [arg ''filePath''] ret
             else if name = Str ''caspio_delete_file'' then
               (if \<not> truthy (arg ''confirm'') then ([], Inl notConfirmed)
                else invoke cl [] ''deleteFile'' [arg ''filePath'']
                  (\<lambda>log v. render str log (arg ''filePath'')
                     (\<lambda>t. success_message (''File '' @ quoted t @ '' deleted''))))
             else if name = Str ''caspio_list_tasks'' then
               invoke cl [] ''listTasks'' [] (\<lambda>log v. ret log (Obj [(''tasks'', v)]))
             else if name = Str ''caspio_get_task'' then
               invoke cl [] ''getTask'' [arg ''taskName''] ret
             else if name = Str ''caspio_run_task'' then
               invoke cl [] ''runTask'' [arg ''taskName'']
                 (\<lambda>log v. render str log (arg ''taskName'')
                    (\<lambda>t. success_message (''Task '' @ quoted t @ '' has been triggered'')))
             else if name = Str ''caspio_test_connection'' then
               invoke cl [] ''testConnection'' []
                 (\<lambda>log v. ret log (Obj [(''connected'', v),
                                          (''message'', Str ''Connection successful'')]))
             else if name = Str ''caspio_get_account_summary'' then
               invoke cl [] ''getAccountSummary'' [] ret
             else (case str name of
                     Inl e \<Rightarrow> ([], Inl e)
                   | Inr t \<Rightarrow> ([], Inl (ErrorObj (''Unknown tool: '' @ t)))))
      in (fst result, map_sum id ToolText (snd result)))"

text \<open>
  The names of \<open>getToolDefinitions()\<close>, each with whether its input schema declares
  the property \<open>confirm\<close> (\<open>Must be true to confirm deletion\<close>); the operations that
  declare it are the destructive ones.
\<close>

definition toolCatalog :: "(string \<times> bool) list" where
  "toolCatalog =
     [(''caspio_list_tables'', False), (''caspio_get_table_schema'', False),
      (''caspio_create_table'', False), (''caspio_delete_table'', True),
      (''caspio_add_field'', False), (''caspio_delete_field'', True),
      (''caspio_get_records'', False), (''caspio_create_record'', False),
      (''caspio_create_records'', False), (''caspio_update_records'', False),
      (''caspio_delete_records'', True), (''caspio_list_views'', False),
      (''caspio_get_view_schema'', False), (''caspio_get_view_records'', False),
      (''caspio_list_applications'', False), (''caspio_get_application'', False),
      (''caspio_list_files'', False), (''caspio_get_file_metadata'', False),
      (''caspio_delete_file'', True), (''caspio_list_tasks'', False),
      (''caspio_get_task'', False), (''caspio_run_task'', False),
      (''caspio_test_connection'', False), (''caspio_get_account_summary'', False)]"

definition destructive :: "(string \<times> bool) list \<Rightarrow> string list" where
  "destructive catalog = map fst (filter snd catalog)"

section \<open>The protocol endpoint\<close>

text \<open>
  What the handlers take from the platform: the JSON value of \<open>getToolDefinitions()\<close>,
  \<open>decodeURIComponent\<close>, which may throw a \<open>URIError\<close>, and \<open>String\<close>.
\<close>

record platform =
  toolDefinitions :: jsval
  decodeURIComponent :: "string \<Rightarrow> thrown + string"
  stringOf :: stringifier

definition handleMcpMethodUnauthenticated :: "platform \<Rightarrow> jsval \<Rightarrow> thrown + payload" where
  "handleMcpMethodUnauthenticated pf request =
     (let method = getp request ''method''
      in if method = Str ''initialize'' then
           Inr (Plain (Obj [(''protocolVersion'', Str ''2024-11-05''),
                            (''serverInfo'', Obj [(''name'', Str ''caspio-mcp-server''),
                                                  (''version'', Str ''1.0.0'')]),
                            (''capabilities'', Obj [(''tools'', Obj [])])]))
         else if method = Str ''notifications/initialized'' then Inr (Plain (Obj []))
         else if method = Str ''tools/list'' then
           Inr (Plain (Obj [(''tools'', toolDefinitions pf)]))
         else if method = Str ''resources/list'' then
           Inr (Plain (Obj [(''resources'', Arr [])]))
         else if method = Str ''resources/read'' then
           Inl (ErrorObj (''Resources not available. Use caspio_get_table_schema or '' @
                          ''caspio_get_view_schema tools instead.''))
         else (case stringOf pf method of
                 Inl e \<Rightarrow> Inl e
               | Inr t \<Rightarrow> Inl (ErrorObj (''Method '' @ t @ '' requires authentication''))))"

text \<open>
  A match of \<open>/^caspio:\/\/KIND\/([^/]+)\/schema$/\<close>: the group, a non-empty text
  without a slash between the two fixed parts.
\<close>

definition match_schema_uri :: "string \<Rightarrow> string \<Rightarrow> string option" where
  "match_schema_uri kind u =
     (let pre = ''caspio://'' @ kind @ ''/'';
          suf = ''/schema'';
          n = length u
      in if length pre + length suf < n \<and> take (length pre) u = pre \<and>
            drop (n - length suf) u = suf
         then (let m = take (n - length pre - length suf) (drop (length pre) u)
               in if CHR ''/'' \<in> set m then None else Some m)
         else None)"

definition resource_entry :: "string \<Rightarrow> string \<Rightarrow> string \<Rightarrow> jsval" where
  "resource_entry kind label t =
     Obj [(''uri'', Str (''caspio://'' @ kind @ ''/'' @ t @ ''/schema'')),
          (''name'', Str (label @ '': '' @ t)),
          (''mimeType'', Str ''application/json'')]"

text \<open>
  \<open>xs.map(t => ({uri: `..${t}..`, name: `..${t}`, mimeType}))\<close> on a value: the
  entries, or \<open>None\<close> when it throws (the value is no array, or \<open>String\<close> of an
  element throws).
\<close>

definition resource_entries :: "stringifier \<Rightarrow> string \<Rightarrow> string \<Rightarrow> jsval \<Rightarrow> jsval list option" where
  "resource_entries str kind label v =
     (case v of
        Arr ts \<Rightarrow>
          if list_all (\<lambda>t. \<not> isl (str t)) ts
          then Some (map (\<lambda>t. resource_entry kind label (projr (str t))) ts)
          else None
      | _ \<Rightarrow> None)"

definition handleMcpMethodAuthenticated :: "platform \<Rightarrow> client \<Rightarrow> jsval \<Rightarrow>
    backend_call list \<times> (thrown + payload)" where
  "handleMcpMethodAuthenticated pf cl request =
     (let method = getp request ''method'';
          params = (if getp request ''params'' = Undefined then Obj []
                    else getp request ''params'')
      in if method = Str ''tools/call'' then
           (case getp_strict params ''name'' of
              Inl e \<Rightarrow> ([], Inl e)
            | Inr name \<Rightarrow>
                executeTool (stringOf pf) cl name (js_or (getp params ''arguments'') (Obj [])))
         else if method = Str ''resources/list'' then
           (case invoke cl [] ''listTables'' []
                   (\<lambda>log tables. invoke cl log ''listViews'' []
                      (\<lambda>log views.
                         (case (resource_entries (stringOf pf) ''tables'' ''Table'' tables,
                                resource_entries (stringOf pf) ''views'' ''View'' views) of
                            (Some ts, Some vs) \<Rightarrow>
                              ret log (Plain (Obj [(''resources'', Arr (ts @ vs))]))
                          | _ \<Rightarrow> ret log (Plain (Obj [(''resources'', Arr [])]))))) of
              (log, Inl e) \<Rightarrow> (log, Inr (Plain (Obj [(''resources'', Arr [])])))
            | (log, Inr r) \<Rightarrow> (log, Inr r))
         else if method = Str ''resources/read'' then
           (case getp_strict params ''uri'' of
              Inl e \<Rightarrow> ([], Inl e)
            | Inr uri \<Rightarrow>
                (case uri of
                   Str u \<Rightarrow>
                     (case match_schema_uri ''tables'' u of
                        Some m \<Rightarrow>
                          (case decodeURIComponent pf m of
                             Inl e \<Rightarrow> ([], Inl e)
                           | Inr tableName \<Rightarrow>
                               invoke cl [] ''getTableDefinition'' [Str tableName]
                                 (\<lambda>log schema. ret log (ResourceContents uri schema)))
                      | None \<Rightarrow>
                          (case match_schema_uri ''views'' u of
                             Some m \<Rightarrow>
                               (case decodeURIComponent pf m of
                                  Inl e \<Rightarrow> ([], Inl e)
                                | Inr viewName \<Rightarrow>
                                    invoke cl [] ''getViewDefinition'' [Str viewName]
                                      (\<lambda>log schema. ret log (ResourceContents uri schema)))
                           | None \<Rightarrow> ([], Inl (ErrorObj (''Unknown resource: '' @ u)))))
                 | Undefined \<Rightarrow> ([], Inl (typeError uri ''match''))
                 | Null \<Rightarrow> ([], Inl (typeError uri ''match''))
                 | _ \<Rightarrow> ([], Inl (ErrorObj ''uri.match is not a function''))))
         else (case stringOf pf method of
                 Inl e \<Rightarrow> ([], Inl e)
               | Inr t \<Rightarrow> ([], Inl (ErrorObj (''Unknown method: '' @ t)))))"

text \<open>
  The body of a POST to \<open>/mcp\<close>: empty or blank, not JSON, or the value
  \<open>JSON.parse\<close> returned.
\<close>

datatype body = EmptyBody | InvalidJson | JsonBody jsval

definition unauthenticatedMethods :: "string list" where
  "unauthenticatedMethods =
     [''initialize'', ''tools/list'', ''notifications/initialized'', ''resources/list'',
      ''resources/read'']"

text \<open>\<open>error instanceof Error ? error.message : 'Internal error'\<close>.\<close>

definition rpc_message :: "thrown \<Rightarrow> string" where
  "rpc_message error = (case error of ErrorObj m \<Rightarrow> m | NonError v \<Rightarrow> ''Internal error'')"

text \<open>
  \<open>handleMcpRequest\<close>: \<open>backend\<close> is \<open>new CaspioClient({baseUrl, clientId,
  clientSecret})\<close>, built for each call from the credentials of the session. Before
  it dispatches, the handler logs \<open>`[MCP] Method: ${rpcRequest.method}, ID:
  ${rpcRequest.id}`\<close> outside of any \<open>try\<close>: reading \<open>method\<close> of \<open>null\<close>, or
  \<open>String\<close> of the method or of the id, may throw.
\<close>

definition handleMcpRequest :: "platform \<Rightarrow> (string \<Rightarrow> string \<Rightarrow> string \<Rightarrow> client) \<Rightarrow>
    server_state \<Rightarrow> string option \<Rightarrow> body \<Rightarrow> backend_call list \<times> response" where
  "handleMcpRequest pf backend s authHeader b =
     (case b of
        EmptyBody \<Rightarrow>
          ([], RpcResult 200 Null
                 (Plain (Obj [(''name'', Str ''caspio-mcp-server''), (''version'', Str ''1.0.0''),
                              (''protocolVersion'', Str ''2024-11-05'')])))
      | InvalidJson \<Rightarrow> ([], RpcError 400 Null (- 32700) ''Parse error: Invalid JSON'')
      | JsonBody rpcRequest \<Rightarrow>
          if rpcRequest = Null \<or> rpcRequest = Undefined then ([], Uncaught)
          else if isl (stringOf pf (getp rpcRequest ''method'')) then ([], Uncaught)
          else if isl (stringOf pf (getp rpcRequest ''id'')) then ([], Uncaught)
          else if getp rpcRequest ''method'' \<in> Str ` set unauthenticatedMethods then
            (case handleMcpMethodUnauthenticated pf rpcRequest of
               Inr result \<Rightarrow> ([], RpcResult 200 (getp rpcRequest ''id'') result)
             | Inl error \<Rightarrow>
                 ([], RpcError 200 (getp rpcRequest ''id'') (- 32603) (rpc_message error)))
          else
            (case getSessionFromRequest s authHeader of
               None \<Rightarrow> ([], Unauthorized)
             | Some session \<Rightarrow>
                 (let caspioClient = backend (caspioBaseUrl session) (caspioClientId session)
                                       (caspioClientSecret session)
                  in case handleMcpMethodAuthenticated pf caspioClient rpcRequest of
                       (log, Inr result) \<Rightarrow>
                         (log, RpcResult 200 (getp rpcRequest ''id'') result)
                     | (log, Inl error) \<Rightarrow>
                         (log, RpcError 200 (getp rpcRequest ''id'') (- 32603)
                                 (rpc_message error)))))"

section \<open>The command executor of the local server\<close>

text \<open>
  \<open>new McpError(ErrorCode.MethodNotFound, message)\<close>: the constructor of the SDK
  puts the code in front of the message.
\<close>

definition methodNotFound :: "string \<Rightarrow> thrown" where
  "methodNotFound m = ErrorObj (''MCP error -32601: '' @ m)"

text \<open>The six paging options of a query, in the order the source writes them.\<close>

definition query_options :: "jsval \<Rightarrow> jsval" where
  "query_options args =
     Obj [(''select'', getp args ''select''), (''where'', getp args ''where''),
          (''orderBy'', getp args ''orderBy''), (''limit'', getp args ''limit''),
          (''pageNumber'', getp args ''pageNumber''), (''pageSize'', getp args ''pageSize'')]"

text \<open>\<open>CaspioMcpServer.executeTool(name, args)\<close> of \<open>index.ts\<close>.\<close>

definition executeToolStdio :: "stringifier \<Rightarrow> client \<Rightarrow> string \<Rightarrow> jsval \<Rightarrow>
    backend_call list \<times> (thrown + jsval)" where
  "executeToolStdio str cl name args =
     (let arg = getp args
      in if name = ''caspio_list_tables'' then
           invoke cl [] ''listTables'' [] (\<lambda>log v. ret log (Obj [(''tables'', v)]))
         else if name = ''caspio_get_table_schema'' then
           invoke cl [] ''getTableDefinition'' [arg ''tableName'']
             (\<lambda>log tableDef. invoke cl log ''getTableFields'' [arg ''tableName'']
                (\<lambda>log tableFields.
                   ret log (Obj (AList.update ''Fields'' tableFields (spread tableDef)))))
         else if name = ''caspio_create_table'' then
           invoke cl [] ''createTable''
             [Obj [(''Name'', arg ''name''), (''Note'', arg ''note''),
                   (''Columns'', arg ''columns'')]]
             (\<lambda>log v. render str log (arg ''name'')
                (\<lambda>t. success_message (''Table '' @ quoted t @ '' created successfully'')))
         else if name = ''caspio_delete_table'' then
           (if \<not> truthy (arg ''confirm'') then ([], Inl notConfirmed)
            else invoke cl [] ''deleteTable'' [arg ''tableName'']
              (\<lambda>log v. render str log (arg ''tableName'')
                 (\<lambda>t. success_message (''Table '' @ quoted t @ '' deleted successfully''))))
         else if name = ''caspio_add_field'' then
           invoke cl [] ''addField'' [arg ''tableName'', arg ''field'']
             (\<lambda>log v.
                (case getp_strict (arg ''field'') ''Name'' of
                   Inl e \<Rightarrow> (log, Inl e)
                 | Inr fieldName \<Rightarrow>
                     render2 str log fieldName (arg ''tableName'')
                       (\<lambda>t u. success_message
                          (''Field '' @ quoted t @ '' added to table '' @ quoted u))))
         else if name = ''caspio_delete_field'' then
           (if \<not> truthy (arg ''confirm'') then ([], Inl notConfirmed)
            else invoke cl [] ''deleteField'' [arg ''tableName'', arg ''fieldName'']
              (\<lambda>log v. render2 str log (arg ''fieldName'') (arg ''tableName'')
                 (\<lambda>t u. success_message
                    (''Field '' @ quoted t @ '' deleted from table '' @ quoted u))))
         else if name = ''caspio_get_records'' then
           invoke cl [] ''getRecords''
             [arg ''tableName'',
              Obj [(''select'', arg ''select''), (''where'', arg ''where''),
                   (''orderBy'', arg ''orderBy''), (''groupBy'', arg ''groupBy''),
                   (''limit'', arg ''limit''), (''pageNumber'', arg ''pageNumber''),
                   (''pageSize'', arg ''pageSize'')]]
             (\<lambda>log records. with_count log records
                (\<lambda>n. Obj [(''records'', records), (''count'', n)]))
         else if name = ''caspio_create_record'' then
           invoke cl [] ''createRecord'' [arg ''tableName'', arg ''record'']
             (\<lambda>log created. ret log (Obj [(''success'', Bool True), (''record'', created)]))
         else if name = ''caspio_create_records'' then
           invoke cl [] ''createRecords'' [arg ''tableName'', arg ''records'']
             (\<lambda>log created. with_count log created
                (\<lambda>n. Obj [(''success'', Bool True), (''records'', created), (''count'', n)]))
         else if name = ''caspio_update_records'' then
           invoke cl [] ''updateRecords'' [arg ''tableName'', arg ''updates'', arg ''where'']
             (\<lambda>log affected.
                ret log (Obj [(''success'', Bool True), (''recordsAffected'', affected)]))
         else if name = ''caspio_delete_records'' then
           (if \<not> truthy (arg ''confirm'') then ([], Inl notConfirmed)
            else invoke cl [] ''deleteRecords'' [arg ''tableName'', arg ''where'']
              (\<lambda>log deleted.
                 ret log (Obj [(''success'', Bool True), (''recordsDeleted'', deleted)])))
         else if name = ''caspio_list_views'' then
           invoke cl [] ''listViews'' [] (\<lambda>log v. ret log (Obj [(''views'', v)]))
         else if name = ''caspio_get_view_schema'' then
           invoke cl [] ''getViewDefinition'' [arg ''viewName''] ret
         else if name = ''caspio_get_view_records'' then
           invoke cl [] ''getViewRecords'' [arg ''viewName'', query_options args]
             (\<lambda>log records. with_count log records
                (\<lambda>n. Obj [(''records'', records), (''count'', n)]))
         else if name = ''caspio_list_applications'' then
           invoke cl [] ''listApplications'' []
             (\<lambda>log v. ret log (Obj [(''applications'', v)]))
         else if name = ''caspio_get_application'' then
           invoke cl [] ''getApplication'' [arg ''appName''] ret
         else if name = ''caspio_list_files'' then
           invoke cl [] ''listFiles'' [js_or (arg ''folderPath'') (Str ''/'')]
             (\<lambda>log v. ret log (Obj [(''files'', v)]))
         else if name = ''caspio_get_file_metadata'' then
           invoke cl [] ''getFileMetadata'' [arg ''filePath''] ret
         else if name = ''caspio_delete_file'' then
           (if \<not> truthy (arg ''confirm'') then ([], Inl notConfirmed)
            else invoke cl [] ''deleteFile'' [arg ''filePath'']
              (\<lambda>log v. render str log (arg ''filePath'')
                 (\<lambda>t. success_message (''File '' @ quoted t @ '' deleted successfully''))))
         else if name = ''caspio_list_tasks'' then
           invoke cl [] ''listTasks'' [] (\<lambda>log v. ret log (Obj [(''tasks'', v)]))
         else if name = ''caspio_get_task'' then
           invoke cl [] ''getTask'' [arg ''taskName''] ret
         else if name = ''caspio_run_task'' then
           invoke cl [] ''runTask'' [arg ''taskName'']
             (\<lambda>log v. render str log (arg ''taskName'')
                (\<lambda>t. success_message (''Task '' @ quoted t @ '' started successfully'')))
         else if name = ''caspio_list_directories'' then
           invoke cl [] ''listDirectories'' []
             (\<lambda>log v. ret log (Obj [(''directories'', v)]))
         else if name = ''caspio_get_directory'' then
           invoke cl [] ''getDirectory'' [arg ''directoryName''] ret
         else if name = ''caspio_list_directory_users'' then
           invoke cl [] ''listDirectoryUsers'' [arg ''directoryName'', query_options args]
             (\<lambda>log users. with_count log users
                (\<lambda>n. Obj [(''users'', users), (''count'', n)]))
         else if name = ''caspio_get_directory_user'' then
           invoke cl [] ''getDirectoryUser'' [arg ''directoryName'', arg ''externalKey''] ret
         else if name = ''caspio_create_directory_user'' then
           invoke cl [] ''createDirectoryUser'' [arg ''directoryName'', arg ''user'']
             (\<lambda>log created. ret log (Obj [(''success'', Bool True), (''user'', created)]))
         else if name = ''caspio_update_directory_user'' then
           invoke cl [] ''updateDirectoryUser''
             [arg ''directoryName'', arg ''externalKey'', arg ''updates'']
             (\<lambda>log updated. ret log (Obj [(''success'', Bool True), (''user'', updated)]))
         else if name = ''caspio_delete_directory_user'' then
           (if \<not> truthy (arg ''confirm'') then ([], Inl notConfirmed)
            else invoke cl [] ''deleteDirectoryUser'' [arg ''directoryName'', arg ''externalKey'']
              (\<lambda>log v. render str log (arg ''directoryName'')
                 (\<lambda>t. success_message (''User deleted from directory '' @ quoted t))))
         else if name = ''caspio_activate_directory_user'' then
           invoke cl [] ''activateDirectoryUser'' [arg ''directoryName'', arg ''externalKey'']
             (\<lambda>log v. render str log (arg ''directoryName'')
                (\<lambda>t. success_message (''User activated in directory '' @ quoted t)))
         else if name = ''caspio_deactivate_directory_user'' then
           invoke cl [] ''deactivateDirectoryUser'' [arg ''directoryName'', arg ''externalKey'']
             (\<lambda>log v. render str log (arg ''directoryName'')
                (\<lambda>t. success_message (''User deactivated in directory '' @ quoted t)))
         else if name = ''caspio_authenticate_directory_user'' then
           invoke cl [] ''authenticateDirectoryUser''
             [arg ''directoryName'', arg ''username'', arg ''password'']
             (\<lambda>log authResult.
                ret log (Obj [(''success'', Bool True), (''authenticated'', Bool True),
                              (''user'', authResult)]))
         else if name = ''caspio_test_connection'' then
           invoke cl [] ''testConnection'' []
             (\<lambda>log connected.
                ret log (Obj [(''connected'', connected),
                              (''message'', Str (if truthy connected then ''Connection successful''
                                                 else ''Connection failed''))]))
         else if name = ''caspio_get_account_summary'' then
           invoke cl [] ''getAccountSummary'' [] ret
         else ([], Inl (methodNotFound (''Unknown tool: '' @ name))))"

text \<open>
  The handler of a tool call: the result as text, a throw as a text with
  \<open>isError: true\<close>. \<open>String(error)\<close> renders a thrown value that is no \<open>Error\<close>, and
  may throw in its turn.
\<close>

definition callToolHandler :: "stringifier \<Rightarrow> client \<Rightarrow> string \<Rightarrow> jsval \<Rightarrow>
    backend_call list \<times> (thrown + payload)" where
  "callToolHandler str cl name args =
     (case executeToolStdio str cl name (js_or args (Obj [])) of
        (log, Inr result) \<Rightarrow> (log, Inr (ToolText result))
      | (log, Inl (ErrorObj m)) \<Rightarrow> (log, Inr (ToolTextError (Obj [(''error'', Str m)])))
      | (log, Inl (NonError v)) \<Rightarrow>
          (case str v of
             Inl e \<Rightarrow> (log, Inl e)
           | Inr t \<Rightarrow> (log, Inr (ToolTextError (Obj [(''error'', Str t)])))))"

text \<open>The names of \<open>TOOLS\<close>, each with whether its input schema declares \<open>confirm\<close>.\<close>

definition toolCatalogStdio :: "(string \<times> bool) list" where
  "toolCatalogStdio =
     [(''caspio_list_tables'', False), (''caspio_get_table_schema'', False),
      (''caspio_create_table'', False), (''caspio_delete_table'', True),
      (''caspio_add_field'', False), (''caspio_delete_field'', True),
      (''caspio_get_records'', False), (''caspio_create_record'', False),
      (''caspio_create_records'', False), (''caspio_update_records'', False),
      (''caspio_delete_records'', True), (''caspio_list_views'', False),
      (''caspio_get_view_schema'', False), (''caspio_get_view_records'', False),
      (''caspio_list_applications'', False), (''caspio_get_application'', False),
      (''caspio_list_files'', False), (''caspio_get_file_metadata'', False),
      (''caspio_delete_file'', True), (''caspio_list_tasks'', False),
      (''caspio_get_task'', False), (''caspio_run_task'', False),
      (''caspio_list_directories'', False), (''caspio_get_directory'', False),
      (''caspio_list_directory_users'', False), (''caspio_get_directory_user'', False),
      (''caspio_create_directory_user'', False), (''caspio_update_directory_user'', False),
      (''caspio_delete_directory_user'', True), (''caspio_activate_directory_user'', False),
      (''caspio_deactivate_directory_user'', False),
      (''caspio_authenticate_directory_user'', False),
      (''caspio_test_connection'', False), (''caspio_get_account_summary'', False)]"

section \<open>Example requests\<close>

text \<open>
  Identifiers of the shape \<open>generateId()\<close> returns: one hexadecimal digit followed by
  63 zeros.
\<close>

definition hexid :: "char \<Rightarrow> string" where
  "hexid c = c # replicate 63 (CHR ''0'')"

definition authorize_params :: params where
  "authorize_params =
     [(''response_type'', ''code''), (''redirect_uri'', ''https://client.example/cb''),
      (''state'', ''xyz''), (''code_challenge'', ''abc''),
      (''code_challenge_method'', ''S256'')]"

definition submit_params :: "string \<Rightarrow> params" where
  "submit_params authId =
     [(''auth_id'', authId), (''caspio_base_url'', ''https://c1abc123.caspio.com/''),
      (''caspio_client_id'', ''id''), (''caspio_client_secret'', ''secret'')]"

definition submit_ok :: "string \<Rightarrow> string \<Rightarrow> int \<Rightarrow> submit_env" where
  "submit_ok code sid now =
     \<lparr>connection = ConnTrue, codeDraw = code, sessionDraw = sid, nowExpires = now,
      nowCreated = now, nowCode = now, submitWriteOk = True, redirectParses = True\<rparr>"

definition code_params :: "string \<Rightarrow> params" where
  "code_params code = [(''grant_type'', ''authorization_code''), (''code'', code)]"

definition refresh_params :: "string \<Rightarrow> params" where
  "refresh_params tok = [(''grant_type'', ''refresh_token''), (''refresh_token'', tok)]"

definition token_ok :: "string \<Rightarrow> string \<Rightarrow> int \<Rightarrow> token_env" where
  "token_ok a r now =
     \<lparr>accessDraw = a, refreshDraw = r, nowCheck = now, nowIssue = now, tokenWriteOk = True\<rparr>"

text \<open>
  The server after one authorize request; one authorization up to the redirect, two of
  them in a row, one followed by the exchange of its code, and two followed by the
  exchanges of their codes.
\<close>

definition pending_state :: server_state where
  "pending_state = run initial [Authorize authorize_params (hexid CHR ''1'') 1000]"

definition one_submission :: "event list" where
  "one_submission =
     [Authorize authorize_params (hexid CHR ''1'') 1000,
      Submit (submit_params (hexid CHR ''1'')) (submit_ok (hexid CHR ''2'') (hexid CHR ''3'') 2000)]"

definition two_submissions :: "event list" where
  "two_submissions =
     one_submission @
     [Authorize authorize_params (hexid CHR ''4'') 3000,
      Submit (submit_params (hexid CHR ''4'')) (submit_ok (hexid CHR ''5'') (hexid CHR ''6'') 4000)]"

definition one_exchange :: "event list" where
  "one_exchange =
     one_submission @
     [Token (code_params (hexid CHR ''2'')) (token_ok (hexid CHR ''a'') (hexid CHR ''b'') 5000)]"

definition two_exchanges :: "event list" where
  "two_exchanges =
     two_submissions @
     [Token (code_params (hexid CHR ''2'')) (token_ok (hexid CHR ''a'') (hexid CHR ''b'') 5000),
      Token (code_params (hexid CHR ''5'')) (token_ok (hexid CHR ''c'') (hexid CHR ''d'') 6000)]"

text \<open>
  A \<open>String\<close> for the examples. It is that of Node.js on \<open>undefined\<close>, \<open>null\<close>,
  booleans, texts, the integers up to \<open>Number.MAX_SAFE_INTEGER\<close> in absolute value,
  and on the arrays and objects that \<open>JSON.parse\<close> builds from these: an array is
  joined with commas, \<open>null\<close> and \<open>undefined\<close> giving the empty text; an object is
  \<open>[object Object]\<close>, and a \<open>TypeError\<close> when it has a property \<open>toString\<close> of its
  own, which is no function. A larger integer is printed in full here.
\<close>

fun join_texts :: "(thrown + string) list \<Rightarrow> thrown + string" where
  "join_texts [] = Inr []"
| "join_texts [x] = x"
| "join_texts (x # y # ys) =
     (case x of
        Inl e \<Rightarrow> Inl e
      | Inr t \<Rightarrow> (case join_texts (y # ys) of Inl e \<Rightarrow> Inl e | Inr u \<Rightarrow> Inr (t @ '','' @ u)))"

fun example_string :: stringifier where
  "example_string Undefined = Inr ''undefined''"
| "example_string Null = Inr ''null''"
| "example_string (Bool b) = Inr (if b then ''true'' else ''false'')"
| "example_string (Num n) = Inr ((if n < 0 then ''-'' else []) @ digits (nat \<bar>n\<bar>))"
| "example_string (Str s) = Inr s"
| "example_string (Arr xs) =
     join_texts (map (\<lambda>x. if x = Undefined \<or> x = Null then Inr [] else example_string x) xs)"
| "example_string (Obj ps) =
     (if map_of ps ''toString'' \<noteq> None
      then Inl (ErrorObj ''Cannot convert object to primitive value'')
      else Inr ''[object Object]'')"

text \<open>
  A platform, a collaborator that answers every invocation with an empty array, one
  whose every invocation throws the error of a failed API request, and two protocol
  requests.
\<close>

definition example_platform :: platform where
  "example_platform =
     \<lparr>toolDefinitions = Arr [], decodeURIComponent = Inr, stringOf = example_string\<rparr>"

definition empty_backend :: "string \<Rightarrow> string \<Rightarrow> string \<Rightarrow> client" where
  "empty_backend baseUrl clientId clientSecret log c = Inr (Arr [])"

definition failing_backend :: "string \<Rightarrow> string \<Rightarrow> string \<Rightarrow> client" where
  "failing_backend baseUrl clientId clientSecret log c =
     Inl (ErrorObj ''API request failed: 500 - Login failed for user caspio_db on node 17'')"

definition tool_call :: "string \<Rightarrow> jsval \<Rightarrow> jsval" where
  "tool_call name args =
     Obj [(''jsonrpc'', Str ''2.0''), (''id'', Num 1), (''method'', Str ''tools/call''),
          (''params'', Obj [(''name'', Str name), (''arguments'', args)])]"

section \<open>Properties\<close>

subsection \<open>Maps and persistence\<close>


lemma update_absent_append:
  "k \<notin> fst ` set al \<Longrightarrow> AList.update k v al = al @ [(k, v)]"
  by (induction al) auto

lemma object_set_subset: "set (object_set k v data) \<subseteq> insert (k, v) (set data)"
proof -
  let ?P = "\<lambda>(k', v'). is_array_index k' \<and> decimal_value k' < decimal_value k"
  have u: "set (AList.update k v data) \<subseteq> insert (k, v) (set data)"
    by (induction data) auto
  have "set (takeWhile ?P data) \<union> set (dropWhile ?P data) = set data"
    by (metis set_append takeWhile_dropWhile_id)
  with u show ?thesis by (auto simp: object_set_def)
qed

lemma insert_between_distinct:
  "distinct (map fst (xs @ ys)) \<Longrightarrow> k \<notin> fst ` set (xs @ ys) \<Longrightarrow>
   distinct (map fst (xs @ [(k, v)] @ ys))"
  by auto

lemma object_set_distinct:
  assumes "distinct (map fst data)"
  shows "distinct (map fst (object_set k v data))"
proof -
  let ?P = "\<lambda>(k', v'). is_array_index k' \<and> decimal_value k' < decimal_value k"
  have ins: "distinct (map fst (takeWhile ?P data @ [(k, v)] @ dropWhile ?P data))"
    if "map_of data k = None"
  proof (rule insert_between_distinct)
    show "distinct (map fst (takeWhile ?P data @ dropWhile ?P data))"
      using assms by (simp only: takeWhile_dropWhile_id)
    show "k \<notin> fst ` set (takeWhile ?P data @ dropWhile ?P data)"
      using that by (simp only: takeWhile_dropWhile_id) (simp add: map_of_eq_None_iff)
  qed
  have app: "distinct (map fst (data @ [(k, v)]))" if "map_of data k = None"
    using that assms by (simp add: map_of_eq_None_iff)
  show ?thesis
  proof (cases "map_of data k = None")
    case True
    with assms ins app show ?thesis by (simp add: object_set_def)
  next
    case False
    with assms show ?thesis by (simp add: object_set_def AList.distinct_update)
  qed
qed

lemma object_fold_subset:
  "set (foldl (\<lambda>data (key, session). object_set key session data) d xs) \<subseteq> set d \<union> set xs"
proof (induction xs arbitrary: d)
  case Nil
  then show ?case by simp
next
  case (Cons x xs)
  obtain k v where x: "x = (k, v)" by (cases x)
  from Cons.IH [of "object_set k v d"] object_set_subset [of k v d]
  show ?case by (auto simp: x)
qed

lemma object_fold_distinct:
  "distinct (map fst d) \<Longrightarrow>
   distinct (map fst (foldl (\<lambda>data (key, session). object_set key session data) d xs))"
proof (induction xs arbitrary: d)
  case Nil
  then show ?case by simp
next
  case (Cons x xs)
  obtain k v where x: "x = (k, v)" by (cases x)
  from Cons.IH [OF object_set_distinct [OF Cons.prems, of k v]] show ?case by (simp add: x)
qed

lemma generated_id_plain:
  "generated_id k \<Longrightarrow> \<not> is_array_index k \<and> k \<noteq> ''__proto__''"
  by (auto simp: generated_id_def is_array_index_def)

lemma object_set_plain:
  "\<not> is_array_index k \<Longrightarrow> k \<noteq> ''__proto__'' \<Longrightarrow> k \<notin> fst ` set data \<Longrightarrow>
   object_set k v data = data @ [(k, v)]"
  by (simp add: object_set_def map_of_eq_None_iff)

lemma save_fold_append:
  "distinct (map fst (m @ xs)) \<Longrightarrow> \<forall>k \<in> fst ` set xs. generated_id k \<Longrightarrow>
   foldl (\<lambda>data (key, session). object_set key session data) m xs = m @ xs"
proof (induction xs arbitrary: m)
  case Nil
  then show ?case by simp
next
  case (Cons x xs)
  obtain k v where x: "x = (k, v)" by (cases x)
  from Cons.prems(1) have "k \<notin> fst ` set m" by (auto simp: x)
  moreover from Cons.prems(2) have "generated_id k" by (simp add: x)
  ultimately have u: "object_set k v m = m @ [(k, v)]"
    using generated_id_plain [of k] by (simp add: object_set_plain)
  from Cons.prems(1) have "distinct (map fst ((m @ [(k, v)]) @ xs))" by (simp add: x)
  moreover from Cons.prems(2) have "\<forall>k \<in> fst ` set xs. generated_id k" by (simp add: x)
  ultimately show ?case using Cons.IH by (simp add: x u)
qed

lemma load_fold_append:
  "distinct (map fst (m @ xs)) \<Longrightarrow>
   foldl (\<lambda>m (key, session). if P session then AList.update key session m else m) m xs
     = m @ filter (\<lambda>(key, session). P session) xs"
proof (induction xs arbitrary: m)
  case Nil
  then show ?case by simp
next
  case (Cons x xs)
  obtain k v where x: "x = (k, v)" by (cases x)
  show ?case
  proof (cases "P v")
    case True
    from Cons.prems have "k \<notin> fst ` set m" by (auto simp: x)
    then have u: "AList.update k v m = m @ [(k, v)]" by (rule update_absent_append)
    from Cons.prems have "distinct (map fst ((m @ [(k, v)]) @ xs))" by (simp add: x)
    from Cons.IH [OF this] show ?thesis by (simp add: x u True)
  next
    case False
    from Cons.prems have "distinct (map fst (m @ xs))" by (simp add: x)
    from Cons.IH [OF this] show ?thesis by (simp add: x False)
  qed
qed

lemma saveSessions_sessions [simp]: "sessions (saveSessions w s) = sessions s"
  by (simp add: saveSessions_def)

lemma saveSessions_pendingAuths [simp]: "pendingAuths (saveSessions w s) = pendingAuths s"
  by (simp add: saveSessions_def)

lemma saveSessions_authCodes [simp]: "authCodes (saveSessions w s) = authCodes s"
  by (simp add: saveSessions_def)

lemma saveSessions_file:
  "distinct (map fst (sessions s)) \<Longrightarrow> \<forall>k \<in> fst ` set (sessions s). generated_id k \<Longrightarrow>
   sessionsFile (saveSessions w s) = (if w then Document (sessions s) else sessionsFile s)"
  using save_fold_append [of "[]" "sessions s"] by (simp add: saveSessions_def)

text \<open>Whatever the keys, the document written has distinct keys and only entries of the map.\<close>

lemma saveSessions_document:
  "sessionsFile (saveSessions w s) = sessionsFile s \<or>
   (\<exists>d. sessionsFile (saveSessions w s) = Document d \<and> distinct (map fst d) \<and>
        set d \<subseteq> set (sessions s))"
  using object_fold_distinct [of "[]" "sessions s"] object_fold_subset [of "[]" "sessions s"]
  by (simp add: saveSessions_def)

lemma startup_sessions:
  "distinct (map fst d) \<Longrightarrow>
   sessions (startup (Document d) now) = filter (\<lambda>(key, session). expiresAt session > now) d"
  using load_fold_append [of "[]" d "\<lambda>session. expiresAt session > now"]
  by (simp add: startup_def loadSessions_def)

subsection \<open>The invariant of the session map\<close>


lemma update_values_subset:
  "set (map h (AList.update k v al)) \<subseteq> insert (h (k, v)) (set (map h al))"
  by (induction al) auto

lemma issued_Cons:
  "issued (t # ts) = (if t = [] then issued ts else t # issued ts)"
  by (simp add: issued_def)

lemma set_issued: "set (issued ts) = set ts - {[]}"
  by (auto simp: issued_def)

lemma issued_distinct_inj:
  "distinct (issued (map h xs)) \<Longrightarrow> p \<in> set xs \<Longrightarrow> q \<in> set xs \<Longrightarrow>
   h p = h q \<Longrightarrow> h p \<noteq> [] \<Longrightarrow> p = q"
proof (induction xs)
  case Nil
  then show ?case by simp
next
  case (Cons x xs)
  from Cons.prems(1) have d: "distinct (issued (map h xs))"
    by (simp add: issued_Cons split: if_splits)
  have out: "h x \<notin> set (map h xs)" if "h x \<noteq> []"
    using Cons.prems(1) that by (simp add: issued_Cons set_issued)
  show ?case
  proof (cases "p = x")
    case px: True
    show ?thesis
    proof (cases "q = x")
      case True
      with px show ?thesis by simp
    next
      case False
      with Cons.prems(3) have "q \<in> set xs" by simp
      then have "h q \<in> set (map h xs)" by simp
      with out px Cons.prems(4,5) show ?thesis by simp
    qed
  next
    case pnx: False
    with Cons.prems(2) have pin: "p \<in> set xs" by simp
    show ?thesis
    proof (cases "q = x")
      case True
      from pin have "h p \<in> set (map h xs)" by simp
      with out True Cons.prems(4,5) show ?thesis by simp
    next
      case False
      with Cons.prems(3) have "q \<in> set xs" by simp
      from Cons.IH [OF d pin this Cons.prems(4,5)] show ?thesis .
    qed
  qed
qed

lemma distinct_issued_sub:
  assumes "distinct (issued (map h ss))" and "distinct d" and "set d \<subseteq> set ss"
  shows "distinct (issued (map h d))"
  using assms(2,3)
proof (induction d)
  case Nil
  then show ?case by (simp add: issued_def)
next
  case (Cons x d)
  from Cons have ih: "distinct (issued (map h d))" by simp
  show ?case
  proof (cases "h x = []")
    case True
    with ih show ?thesis by (simp add: issued_Cons)
  next
    case False
    have "h x \<notin> set (map h d)"
    proof
      assume "h x \<in> set (map h d)"
      then obtain y where y: "y \<in> set d" "h x = h y" by auto
      from Cons.prems y have "x \<in> set ss" "y \<in> set ss" by auto
      from issued_distinct_inj [OF assms(1) this y(2) False] have "x = y" .
      with y(1) Cons.prems(1) show False by simp
    qed
    with ih False show ?thesis by (simp add: issued_Cons set_issued)
  qed
qed

lemma store_ok_sub:
  assumes "store_ok ss" and "distinct (map fst d)" and "set d \<subseteq> set ss"
  shows "store_ok d"
proof -
  from assms(2) have dd: "distinct d" by (simp add: distinct_map)
  from assms(1) have a: "distinct (issued (map (accessToken \<circ> snd) d))"
    by (intro distinct_issued_sub [OF _ dd assms(3)]) (simp add: store_ok_def)
  from assms(1) have r: "distinct (issued (map (refreshToken \<circ> snd) d))"
    by (intro distinct_issued_sub [OF _ dd assms(3)]) (simp add: store_ok_def)
  from assms(1,3) have l: "list_all (\<lambda>(sid, session).
      (accessToken session = []) = (refreshToken session = [])) d"
    by (auto simp: store_ok_def list_all_iff)
  from assms(2) a r l show ?thesis by (simp add: store_ok_def)
qed

lemma issued_update_distinct:
  assumes "distinct (issued (map h al))"
    and "h (k, v) = [] \<or> h (k, v) \<notin> set (map h al)"
  shows "distinct (issued (map h (AList.update k v al)))"
  using assms
proof (induction al)
  case Nil
  then show ?case by (simp add: issued_def)
next
  case (Cons p ps)
  from Cons.prems have d: "distinct (issued (map h ps))"
    by (simp add: issued_Cons split: if_splits)
  from Cons.prems have f: "h (k, v) = [] \<or> h (k, v) \<notin> set (map h ps)" by auto
  show ?case
  proof (cases "fst p = k")
    case True
    with d f show ?thesis by (auto simp: issued_Cons set_issued)
  next
    case False
    have ih: "distinct (issued (map h (AList.update k v ps)))"
      by (rule Cons.IH [OF d f])
    have sub: "set (map h (AList.update k v ps)) \<subseteq> insert (h (k, v)) (set (map h ps))"
      by (rule update_values_subset)
    show ?thesis
    proof (cases "h p = []")
      case True
      with False ih show ?thesis by (simp add: issued_Cons)
    next
      case nz: False
      from Cons.prems nz have a: "h p \<notin> set (map h ps)"
        by (simp add: issued_Cons set_issued)
      from Cons.prems nz have b: "h p \<noteq> h (k, v)" by auto
      from a b sub have "h p \<notin> set (map h (AList.update k v ps))" by blast
      with False ih nz show ?thesis by (simp add: issued_Cons set_issued)
    qed
  qed
qed

lemma list_all_update:
  "list_all P al \<Longrightarrow> P (k, v) \<Longrightarrow> list_all P (AList.update k v al)"
  by (induction al) auto

lemma store_ok_update:
  assumes "store_ok ss"
    and "accessToken v = [] \<or> accessToken v \<notin> set (map (accessToken \<circ> snd) ss)"
    and "refreshToken v = [] \<or> refreshToken v \<notin> set (map (refreshToken \<circ> snd) ss)"
    and "(accessToken v = []) = (refreshToken v = [])"
  shows "store_ok (AList.update k v ss)"
proof -
  have a: "distinct (issued (map (accessToken \<circ> snd) (AList.update k v ss)))"
    using assms(1,2) by (intro issued_update_distinct) (simp_all add: store_ok_def)
  have r: "distinct (issued (map (refreshToken \<circ> snd) (AList.update k v ss)))"
    using assms(1,3) by (intro issued_update_distinct) (simp_all add: store_ok_def)
  have l: "list_all (\<lambda>(sid, session). (accessToken session = []) = (refreshToken session = []))
             (AList.update k v ss)"
    using assms(1,4) by (intro list_all_update) (simp_all add: store_ok_def)
  from assms(1) a r l show ?thesis
    by (simp add: store_ok_def AList.distinct_update)
qed

lemma issued_filter_distinct:
  "distinct (issued (map h al)) \<Longrightarrow> distinct (issued (map h (filter P al)))"
  by (induction al) (auto simp: issued_Cons set_issued split: if_splits)

lemma store_ok_filter: "store_ok ss \<Longrightarrow> store_ok (filter P ss)"
  by (simp add: store_ok_def distinct_map_filter issued_filter_distinct list_all_iff)

lemma store_ok_Nil: "store_ok []"
  by (simp add: store_ok_def issued_def)


lemma saveSessions_ok:
  assumes "state_ok s"
  shows "state_ok (saveSessions w s)"
proof -
  from assms have ok: "store_ok (sessions s)" and f: "file_ok (sessionsFile s)"
    by (simp_all add: state_ok_def)
  from saveSessions_document [of w s] have "file_ok (sessionsFile (saveSessions w s))"
  proof
    assume "sessionsFile (saveSessions w s) = sessionsFile s"
    with f show ?thesis by simp
  next
    assume "\<exists>d. sessionsFile (saveSessions w s) = Document d \<and> distinct (map fst d) \<and>
                set d \<subseteq> set (sessions s)"
    then obtain d where d: "sessionsFile (saveSessions w s) = Document d"
      "distinct (map fst d)" "set d \<subseteq> set (sessions s)"
      by blast
    from store_ok_sub [OF ok d(2,3)] d(1) show ?thesis by simp
  qed
  with ok show ?thesis by (simp add: state_ok_def)
qed

lemma setSession_ok:
  assumes "state_ok s"
    and "accessToken v = [] \<or> accessToken v \<notin> set (map (accessToken \<circ> snd) (sessions s))"
    and "refreshToken v = [] \<or> refreshToken v \<notin> set (map (refreshToken \<circ> snd) (sessions s))"
    and "(accessToken v = []) = (refreshToken v = [])"
  shows "state_ok (setSession w k v s)"
proof -
  have "store_ok (AList.update k v (sessions s))"
    using assms by (intro store_ok_update) (simp_all add: state_ok_def)
  with assms(1) have "state_ok (s\<lparr>sessions := AList.update k v (sessions s)\<rparr>)"
    by (simp add: state_ok_def)
  then show ?thesis unfolding setSession_def by (rule saveSessions_ok)
qed

lemma state_ok_pendingAuths_update [simp]:
  "state_ok (s\<lparr>pendingAuths := p\<rparr>) = state_ok s"
  by (simp add: state_ok_def)

lemma state_ok_authCodes_update [simp]:
  "state_ok (s\<lparr>authCodes := c\<rparr>) = state_ok s"
  by (simp add: state_ok_def)

lemma handleAuthorize_ok:
  "state_ok s \<Longrightarrow> state_ok (fst (handleAuthorize s ps authId now))"
  by (simp add: handleAuthorize_def Let_def)

lemma handleAuthorizeSubmit_ok:
  assumes "state_ok s"
  shows "state_ok (fst (handleAuthorizeSubmit s ps env))"
proof -
  have blank: "\<And>v s'. state_ok s' \<Longrightarrow> accessToken v = [] \<Longrightarrow> refreshToken v = []
                 \<Longrightarrow> state_ok (setSession w k v s')" for w k
    by (rule setSession_ok) simp_all
  show ?thesis
    using assms
    by (auto simp: handleAuthorizeSubmit_def Let_def blank split: conn_outcome.splits)
qed

lemma fresh_access:
  "fresh s x \<Longrightarrow> x \<notin> set (map (accessToken \<circ> snd) (sessions s))"
  by (simp add: fresh_def ids_in_use_def)

lemma fresh_refresh:
  "fresh s x \<Longrightarrow> x \<notin> set (map (refreshToken \<circ> snd) (sessions s))"
  by (simp add: fresh_def ids_in_use_def)

lemma fresh_nonempty: "fresh s x \<Longrightarrow> x \<noteq> []"
  by (simp add: fresh_def)

lemma handleToken_ok:
  assumes "state_ok s" and "fresh s (accessDraw env)" and "fresh s (refreshDraw env)"
  shows "state_ok (fst (handleToken s ps env))"
proof -
  have issue: "state_ok (setSession w k
                 (v\<lparr>accessToken := accessDraw env, refreshToken := refreshDraw env,
                    expiresAt := t\<rparr>) s)" for w k v t
  proof (rule setSession_ok)
    show "state_ok s" by (rule assms(1))
    show "accessToken (v\<lparr>accessToken := accessDraw env, refreshToken := refreshDraw env,
                         expiresAt := t\<rparr>) = [] \<or>
          accessToken (v\<lparr>accessToken := accessDraw env, refreshToken := refreshDraw env,
                         expiresAt := t\<rparr>) \<notin> set (map (accessToken \<circ> snd) (sessions s))"
      using fresh_access [OF assms(2)] by simp
    show "refreshToken (v\<lparr>accessToken := accessDraw env, refreshToken := refreshDraw env,
                          expiresAt := t\<rparr>) = [] \<or>
          refreshToken (v\<lparr>accessToken := accessDraw env, refreshToken := refreshDraw env,
                          expiresAt := t\<rparr>) \<notin> set (map (refreshToken \<circ> snd) (sessions s))"
      using fresh_refresh [OF assms(3)] by simp
    show "(accessToken (v\<lparr>accessToken := accessDraw env, refreshToken := refreshDraw env,
                          expiresAt := t\<rparr>) = []) =
          (refreshToken (v\<lparr>accessToken := accessDraw env, refreshToken := refreshDraw env,
                           expiresAt := t\<rparr>) = [])"
      using fresh_nonempty [OF assms(2)] fresh_nonempty [OF assms(3)] by simp
  qed
  show ?thesis
    using assms(1)
    by (auto simp: handleToken_def Let_def issue split: option.splits)
qed

lemma sweep_ok: "state_ok s \<Longrightarrow> state_ok (sweep now w s)"
proof -
  assume ok: "state_ok s"
  let ?kept = "filter (\<lambda>(key, session). \<not> expiresAt session < now) (sessions s)"
  from ok have "state_ok (s\<lparr>sessions := ?kept\<rparr>)"
    by (simp add: state_ok_def store_ok_filter)
  then show ?thesis
    by (simp add: sweep_def Let_def saveSessions_ok)
qed

lemma startup_ok: "file_ok f \<Longrightarrow> state_ok (startup f now)"
proof (cases f)
  case (Document d)
  assume "file_ok f"
  with Document have d: "store_ok d" by simp
  then have "distinct (map fst d)" by (simp add: store_ok_def)
  then have "sessions (startup (Document d) now)
               = filter (\<lambda>(key, session). expiresAt session > now) d"
    by (rule startup_sessions)
  moreover have "sessionsFile (startup (Document d) now) = Document d"
    by (simp add: startup_def loadSessions_def)
  ultimately show ?thesis using d Document by (simp add: state_ok_def store_ok_filter)
qed (simp_all add: startup_def loadSessions_def state_ok_def store_ok_Nil)

lemma state_ok_file: "state_ok s \<Longrightarrow> file_ok (sessionsFile s)"
  by (simp add: state_ok_def)

lemma step_ok: "state_ok s \<Longrightarrow> event_ok s e \<Longrightarrow> state_ok (step s e)"
  by (cases e)
     (simp_all add: handleAuthorize_ok handleAuthorizeSubmit_ok handleToken_ok sweep_ok
        startup_ok state_ok_file)

lemma run_ok: "state_ok s \<Longrightarrow> valid_run s evs \<Longrightarrow> state_ok (run s evs)"
  by (induction evs arbitrary: s) (simp_all add: run_def step_ok)

lemma initial_ok: "state_ok initial"
  by (simp add: initial_def state_ok_def store_ok_Nil)

subsection \<open>Submission, rotation and the bearer header\<close>

lemma bearer_take [simp]: "take 7 (''Bearer '' @ t) = ''Bearer ''"
  by simp

lemma bearer_drop [simp]: "drop 7 (''Bearer '' @ t) = t"
  by simp

lemma submit_redirect:
  assumes "handleAuthorizeSubmit s ps env = (s1, Redirect uri c st)"
  shows "c = codeDraw env \<and>
         connection env = ConnTrue \<and>
         map_of (authCodes s1) c
           = Some \<lparr>sessionId = sessionDraw env, codeExpiresAt = nowCode env + 600000\<rparr> \<and>
         (\<exists>session. map_of (sessions s1) (sessionDraw env) = Some session \<and>
            accessToken session = [] \<and> refreshToken session = []) \<and>
         sessions s1 = AList.update (sessionDraw env)
            \<lparr>caspioBaseUrl = the (map_option strip_trailing_slash (param_get ps ''caspio_base_url'')),
             caspioClientId = the (param_get ps ''caspio_client_id''),
             caspioClientSecret = the (param_get ps ''caspio_client_secret''),
             accessToken = [], refreshToken = [],
             expiresAt = nowExpires env + 86400000, createdAt = nowCreated env\<rparr> (sessions s)"
  using assms
  by (auto simp: handleAuthorizeSubmit_def Let_def setSession_def saveSessions_def
        AList.update_conv' split: if_splits conn_outcome.splits)

lemma update_member:
  "distinct (map fst al) \<Longrightarrow> q \<in> set (AList.update k v al) \<Longrightarrow>
   q = (k, v) \<or> (q \<in> set al \<and> fst q \<noteq> k)"
proof (induction al)
  case Nil
  then show ?case by simp
next
  case (Cons p ps)
  show ?case
  proof (cases "fst p = k")
    case True
    with Cons.prems have "q = (k, v) \<or> q \<in> set ps" by simp
    moreover have "fst q \<noteq> k" if "q \<in> set ps"
      using Cons.prems(1) True that by (auto simp: image_iff)
    ultimately show ?thesis by auto
  next
    case False
    with Cons.prems have "q = p \<or> q \<in> set (AList.update k v ps)" by simp
    moreover from Cons.prems(1) have "distinct (map fst ps)" by simp
    ultimately show ?thesis using Cons.IH False by auto
  qed
qed

lemma find_session_None:
  "(find (\<lambda>session. accessToken session = tok) (map snd ss) = None)
     = (\<forall>q \<in> set ss. accessToken (snd q) \<noteq> tok)"
  by (auto simp: find_None_iff)

lemma findByRefreshToken_None:
  "(findByRefreshToken ss tok = None) = (\<forall>q \<in> set ss. refreshToken (snd q) \<noteq> tok)"
  by (fastforce simp: findByRefreshToken_def find_None_iff)

lemma findByRefreshToken_Some:
  "findByRefreshToken ss tok = Some (sid, session) \<Longrightarrow>
   (sid, session) \<in> set ss \<and> refreshToken session = tok"
  by (auto simp: findByRefreshToken_def find_Some_iff in_set_conv_nth)

lemma store_ok_paired:
  "store_ok ss \<Longrightarrow> (sid, session) \<in> set ss \<Longrightarrow>
   (accessToken session = []) = (refreshToken session = [])"
  by (auto simp: store_ok_def list_all_iff)

text \<open>After a rotation of the entry \<open>sid\<close>, no session holds the old tokens.\<close>

lemma rotated_tokens_gone:
  assumes ok: "store_ok ss"
    and mem: "(sid, old) \<in> set ss"
    and issued_old: "refreshToken old \<noteq> []"
    and fa: "\<forall>p \<in> set ss. accessToken (snd p) \<noteq> accessToken new"
    and fr: "\<forall>p \<in> set ss. refreshToken (snd p) \<noteq> refreshToken new"
    and q: "q \<in> set (AList.update sid new ss)"
  shows "accessToken (snd q) \<noteq> accessToken old \<and> refreshToken (snd q) \<noteq> refreshToken old"
proof -
  from ok have dk: "distinct (map fst ss)"
    and da: "distinct (issued (map (accessToken \<circ> snd) ss))"
    and dr: "distinct (issued (map (refreshToken \<circ> snd) ss))"
    by (simp_all add: store_ok_def)
  from store_ok_paired [OF ok mem] issued_old have a_old: "accessToken old \<noteq> []" by simp
  from update_member [OF dk q] show ?thesis
  proof
    assume "q = (sid, new)"
    moreover from mem fa have "accessToken old \<noteq> accessToken new" by force
    moreover from mem fr have "refreshToken old \<noteq> refreshToken new" by force
    ultimately show ?thesis by auto
  next
    assume other: "q \<in> set ss \<and> fst q \<noteq> sid"
    have "accessToken (snd q) \<noteq> accessToken old"
    proof
      assume "accessToken (snd q) = accessToken old"
      then have "(accessToken \<circ> snd) (sid, old) = (accessToken \<circ> snd) q" by simp
      from issued_distinct_inj [OF da mem _ this] other a_old have "(sid, old) = q" by simp
      with other show False by auto
    qed
    moreover have "refreshToken (snd q) \<noteq> refreshToken old"
    proof
      assume "refreshToken (snd q) = refreshToken old"
      then have "(refreshToken \<circ> snd) (sid, old) = (refreshToken \<circ> snd) q" by simp
      from issued_distinct_inj [OF dr mem _ this] other issued_old have "(sid, old) = q" by simp
      with other show False by auto
    qed
    ultimately show ?thesis by simp
  qed
qed

lemma refresh_granted:
  assumes "param_get ps ''grant_type'' = Some ''refresh_token''"
    and "param_get ps ''refresh_token'' = Some r"
    and "handleToken s ps env = (s', TokenJson a' r')"
  shows "\<exists>sid old. findByRefreshToken (sessions s) r = Some (sid, old) \<and> r \<noteq> [] \<and>
           s' = setSession (tokenWriteOk env) sid
                  (old\<lparr>accessToken := accessDraw env, refreshToken := refreshDraw env,
                        expiresAt := nowIssue env + 86400000\<rparr>) s"
  using assms
  by (auto simp: handleToken_def Let_def absent_def split: option.splits if_splits)

lemma setSession_sessions [simp]:
  "sessions (setSession w k v s) = AList.update k v (sessions s)"
  by (simp add: setSession_def)

lemma sweep_pendingAuths:
  "pendingAuths (sweep now w s)
     = filter (\<lambda>(key, pending). \<not> pendingCreatedAt pending + 600000 < now) (pendingAuths s)"
  by (simp add: sweep_def Let_def)

subsection \<open>The executors\<close>

lemma invoke_log:
  "invoke cl [] m as (\<lambda>log v. ret log (f v)) =
     ([Call m as], case cl [] (Call m as) of Inl e \<Rightarrow> Inl e | Inr v \<Rightarrow> Inr (f v))"
  by (simp add: invoke_def ret_def split: sum.splits)

lemma invoke_ret:
  "invoke cl [] m as ret = ([Call m as], cl [] (Call m as))"
  by (simp add: invoke_def ret_def fun_eq_iff split: sum.splits)

lemma invoke_count:
  "invoke cl [] m as (\<lambda>log v. with_count log v (f v)) =
     ([Call m as],
      case cl [] (Call m as) of
        Inl e \<Rightarrow> Inl e
      | Inr v \<Rightarrow> (case js_length v of Inl e \<Rightarrow> Inl e | Inr n \<Rightarrow> Inr (f v n)))"
  by (simp add: invoke_def with_count_def split: sum.splits)

lemma invoke_render:
  "invoke cl [] m as (\<lambda>log v. render str log x f) =
     ([Call m as],
      case cl [] (Call m as) of
        Inl e \<Rightarrow> Inl e
      | Inr v \<Rightarrow> (case str x of Inl e \<Rightarrow> Inl e | Inr t \<Rightarrow> Inr (f t)))"
  by (simp add: invoke_def render_def split: sum.splits)

lemma invoke_render2:
  "invoke cl [] m as (\<lambda>log v. render2 str log x y f) =
     ([Call m as],
      case cl [] (Call m as) of
        Inl e \<Rightarrow> Inl e
      | Inr v \<Rightarrow>
          (case str x of
             Inl e \<Rightarrow> Inl e
           | Inr t \<Rightarrow> (case str y of Inl e \<Rightarrow> Inl e | Inr u \<Rightarrow> Inr (f t u))))"
  by (simp add: invoke_def render2_def split: sum.splits)

text \<open>
  A tool of the remote server makes at most one invocation, and a throw of that
  invocation is the outcome of the tool.
\<close>

lemma executeTool_throw:
  assumes "executeTool str cl name args = (log, r)"
    and "log \<noteq> []"
    and "cl (butlast log) (last log) = Inl e"
  shows "r = Inl e"
  using assms
  by (auto simp: executeTool_def Let_def invoke_log invoke_ret invoke_count
        invoke_render invoke_render2 split: if_splits sum.splits)

lemma destructive_toolCatalog:
  "destructive toolCatalog =
     [''caspio_delete_table'', ''caspio_delete_field'', ''caspio_delete_records'',
      ''caspio_delete_file'']"
  by (simp add: destructive_def toolCatalog_def)

lemma destructive_toolCatalogStdio:
  "destructive toolCatalogStdio =
     [''caspio_delete_table'', ''caspio_delete_field'', ''caspio_delete_records'',
      ''caspio_delete_file'', ''caspio_delete_directory_user'']"
  by (simp add: destructive_def toolCatalogStdio_def)

lemma executeTool_delete_table:
  "\<not> truthy (getp args ''confirm'') \<Longrightarrow>
   executeTool str cl (Str ''caspio_delete_table'') args = ([], Inl notConfirmed)"
  by (simp add: executeTool_def Let_def)

lemma executeTool_delete_field:
  "\<not> truthy (getp args ''confirm'') \<Longrightarrow>
   executeTool str cl (Str ''caspio_delete_field'') args = ([], Inl notConfirmed)"
  by (simp add: executeTool_def Let_def)

lemma executeTool_delete_records:
  "\<not> truthy (getp args ''confirm'') \<Longrightarrow>
   executeTool str cl (Str ''caspio_delete_records'') args = ([], Inl notConfirmed)"
  by (simp add: executeTool_def Let_def)

lemma executeTool_delete_file:
  "\<not> truthy (getp args ''confirm'') \<Longrightarrow>
   executeTool str cl (Str ''caspio_delete_file'') args = ([], Inl notConfirmed)"
  by (simp add: executeTool_def Let_def)

lemma executeToolStdio_delete_table:
  "\<not> truthy (getp args ''confirm'') \<Longrightarrow>
   executeToolStdio str cl ''caspio_delete_table'' args = ([], Inl notConfirmed)"
  by (simp add: executeToolStdio_def Let_def)

lemma executeToolStdio_delete_field:
  "\<not> truthy (getp args ''confirm'') \<Longrightarrow>
   executeToolStdio str cl ''caspio_delete_field'' args = ([], Inl notConfirmed)"
  by (simp add: executeToolStdio_def Let_def)

lemma executeToolStdio_delete_records:
  "\<not> truthy (getp args ''confirm'') \<Longrightarrow>
   executeToolStdio str cl ''caspio_delete_records'' args = ([], Inl notConfirmed)"
  by (simp add: executeToolStdio_def Let_def)

lemma executeToolStdio_delete_file:
  "\<not> truthy (getp args ''confirm'') \<Longrightarrow>
   executeToolStdio str cl ''caspio_delete_file'' args = ([], Inl notConfirmed)"
  by (simp add: executeToolStdio_def Let_def)

lemma executeToolStdio_delete_directory_user:
  "\<not> truthy (getp args ''confirm'') \<Longrightarrow>
   executeToolStdio str cl ''caspio_delete_directory_user'' args = ([], Inl notConfirmed)"
  by (simp add: executeToolStdio_def Let_def)

lemma executeTool_unconfirmed:
  assumes "\<not> truthy (getp args ''confirm'')"
    and "name \<in> set (destructive toolCatalog)"
  shows "executeTool str cl (Str name) args = ([], Inl notConfirmed)"
proof -
  from assms(2) consider "name = ''caspio_delete_table''" | "name = ''caspio_delete_field''"
    | "name = ''caspio_delete_records''" | "name = ''caspio_delete_file''"
    unfolding destructive_toolCatalog by auto
  then show ?thesis
  proof cases
    case 1
    then show ?thesis using assms(1) by (simp add: executeTool_delete_table)
  next
    case 2
    then show ?thesis using assms(1) by (simp add: executeTool_delete_field)
  next
    case 3
    then show ?thesis using assms(1) by (simp add: executeTool_delete_records)
  next
    case 4
    then show ?thesis using assms(1) by (simp add: executeTool_delete_file)
  qed
qed

lemma executeToolStdio_unconfirmed:
  assumes "\<not> truthy (getp args ''confirm'')"
    and "name \<in> set (destructive toolCatalogStdio)"
  shows "executeToolStdio str cl name args = ([], Inl notConfirmed)"
proof -
  from assms(2) consider "name = ''caspio_delete_table''" | "name = ''caspio_delete_field''"
    | "name = ''caspio_delete_records''" | "name = ''caspio_delete_file''"
    | "name = ''caspio_delete_directory_user''"
    unfolding destructive_toolCatalogStdio by auto
  then show ?thesis
  proof cases
    case 1
    then show ?thesis using assms(1) by (simp add: executeToolStdio_delete_table)
  next
    case 2
    then show ?thesis using assms(1) by (simp add: executeToolStdio_delete_field)
  next
    case 3
    then show ?thesis using assms(1) by (simp add: executeToolStdio_delete_records)
  next
    case 4
    then show ?thesis using assms(1) by (simp add: executeToolStdio_delete_file)
  next
    case 5
    then show ?thesis using assms(1) by (simp add: executeToolStdio_delete_directory_user)
  qed
qed

lemma js_or_unconfirmed:
  "\<not> truthy (getp args ''confirm'') \<Longrightarrow> \<not> truthy (getp (js_or args (Obj [])) ''confirm'')"
  by (simp add: js_or_def getp_def)

lemma authenticated_throw:
  assumes "getp rpcRequest ''method'' \<notin> Str ` set unauthenticatedMethods"
    and "handleMcpMethodAuthenticated pf cl rpcRequest = (log, r)"
    and "log \<noteq> []"
    and "cl (butlast log) (last log) = Inl e"
  shows "r = Inl e"
proof -
  from assms(1) have nl: "getp rpcRequest ''method'' \<noteq> Str ''resources/list''"
    and nr: "getp rpcRequest ''method'' \<noteq> Str ''resources/read''"
    by (auto simp: unauthenticatedMethods_def)
  show ?thesis
  proof (cases "getp rpcRequest ''method'' = Str ''tools/call''")
    case True
    let ?params = "if getp rpcRequest ''params'' = Undefined then Obj []
                   else getp rpcRequest ''params''"
    show ?thesis
    proof (cases "getp_strict ?params ''name''")
      case (Inl x)
      with True assms(2,3) show ?thesis
        by (simp add: handleMcpMethodAuthenticated_def Let_def)
    next
      case (Inr name)
      with True assms(2) have
        "executeTool (stringOf pf) cl name (js_or (getp ?params ''arguments'') (Obj [])) = (log, r)"
        by (simp add: handleMcpMethodAuthenticated_def Let_def)
      from executeTool_throw [OF this assms(3,4)] show ?thesis .
    qed
  next
    case False
    with nl nr assms(2,3) show ?thesis
      by (simp add: handleMcpMethodAuthenticated_def Let_def split: sum.splits)
  qed
qed

lemma find_updated_blank:
  assumes "\<forall>p \<in> set al. \<not> P (snd p)" and "P v"
  shows "find P (map snd (AList.update k v al)) = Some v"
  using assms by (induction al) auto

lemma find_blank_exists:
  assumes "P v"
  shows "\<exists>w. find P (map snd (AList.update k v al)) = Some w \<and> P w"
proof -
  have "(k, v) \<in> set (AList.update k v al)"
    by (induction al) auto
  then have "\<exists>x \<in> set (map snd (AList.update k v al)). P x"
    using assms by force
  then show ?thesis
    by (cases "find P (map snd (AList.update k v al))")
       (auto simp: find_None_iff dest: find_Some_iff [THEN iffD1])
qed

subsection \<open>Header values as they are delivered\<close>

lemma delivered_no_trailing:
  "delivered_header raw \<noteq> [] \<Longrightarrow> \<not> is_ows (last (delivered_header raw))"
proof -
  assume ne: "delivered_header raw \<noteq> []"
  let ?xs = "dropWhile is_ows (rev (dropWhile is_ows raw))"
  from ne have "?xs \<noteq> []"
    by (simp add: delivered_header_def)
  then have "\<not> is_ows (hd ?xs)"
    by (rule hd_dropWhile)
  moreover have "last (delivered_header raw) = hd ?xs"
    using \<open>?xs \<noteq> []\<close> by (simp add: delivered_header_def last_rev)
  ultimately show ?thesis by simp
qed

lemma delivered_bearer_token:
  assumes "take 7 (delivered_header raw) = ''Bearer ''"
  shows "drop 7 (delivered_header raw) \<noteq> []"
proof
  assume "drop 7 (delivered_header raw) = []"
  with assms have h: "delivered_header raw = ''Bearer ''"
    by (metis append_Nil2 append_take_drop_id)
  then have "is_ows (last (delivered_header raw))"
    by (simp add: is_ows_def)
  moreover from h have "delivered_header raw \<noteq> []"
    by simp
  ultimately show False
    using delivered_no_trailing by blast
qed

lemma delivered_resolves_issued:
  assumes "getSessionFromRequest s (Some (delivered_header raw)) = Some resolved"
  shows "accessToken resolved \<noteq> []"
proof -
  from assms have b: "take 7 (delivered_header raw) = ''Bearer ''"
    by (simp add: getSessionFromRequest_def split: if_splits)
  with assms have "accessToken resolved = drop 7 (delivered_header raw)"
    by (auto simp: getSessionFromRequest_def Let_def find_Some_iff)
  with delivered_bearer_token [OF b] show ?thesis by simp
qed

lemma delivered_empty_bearer: "delivered_header ''Bearer '' = ''Bearer''"
  by (simp add: delivered_header_def is_ows_def)

lemma bearer_alone_unresolved: "getSessionFromRequest s (Some ''Bearer'') = None"
  by (simp add: getSessionFromRequest_def)

lemma unresolved_as_no_header:
  "getSessionFromRequest s h = None \<Longrightarrow>
   handleMcpRequest pf backend s h b = handleMcpRequest pf backend s None b"
  by (simp add: handleMcpRequest_def getSessionFromRequest_def split: body.splits)

subsection \<open>Evaluating the example runs\<close>

lemma hexid_eq [simp]: "(hexid c = hexid d) = (c = d)"
  by (simp add: hexid_def)

lemma hexid_nonempty [simp]: "hexid c \<noteq> []"
  by (simp add: hexid_def)

lemma hexid_generated: "c \<in> set ''0123456789abcdef'' \<Longrightarrow> generated_id (hexid c)"
  by (simp add: generated_id_def hexid_def list_all_iff)

lemma object_set_hexid [simp]:
  "object_set (hexid c) v data =
     (if map_of data (hexid c) \<noteq> None then AList.update (hexid c) v data
      else data @ [(hexid c, v)])"
proof -
  have "length (hexid c) = 64"
    by (simp add: hexid_def)
  then have "hexid c \<noteq> ''__proto__''"
    by auto
  moreover have "\<not> is_array_index (hexid c)"
    by (simp add: is_array_index_def hexid_def)
  ultimately show ?thesis
    by (simp add: object_set_def)
qed

lemmas eval_defs =
  handleAuthorize_def handleAuthorizeSubmit_def handleToken_def param_get_def absent_def
  or_else_def strip_trailing_slash_def setSession_def saveSessions_def findByRefreshToken_def
  sweep_def startup_def loadSessions_def getSessionFromRequest_def
  authorize_params_def submit_params_def submit_ok_def code_params_def refresh_params_def
  token_ok_def initial_def run_def fresh_def ids_in_use_def Let_def

lemma run_append: "run s (xs @ ys) = run (run s xs) ys"
  by (simp add: run_def)

lemma valid_run_append:
  "valid_run s (xs @ ys) = (valid_run s xs \<and> valid_run (run s xs) ys)"
  by (induction xs arbitrary: s) (simp_all add: run_def)

lemma run_one_submission:
  "run initial one_submission =
     \<lparr>sessions = [(hexid CHR ''3'',
         \<lparr>caspioBaseUrl = ''https://c1abc123.caspio.com'', caspioClientId = ''id'',
          caspioClientSecret = ''secret'', accessToken = [], refreshToken = [],
          expiresAt = 86402000, createdAt = 2000\<rparr>)],
      pendingAuths = [],
      authCodes = [(hexid CHR ''2'', \<lparr>sessionId = hexid CHR ''3'', codeExpiresAt = 602000\<rparr>)],
      sessionsFile = Document [(hexid CHR ''3'',
         \<lparr>caspioBaseUrl = ''https://c1abc123.caspio.com'', caspioClientId = ''id'',
          caspioClientSecret = ''secret'', accessToken = [], refreshToken = [],
          expiresAt = 86402000, createdAt = 2000\<rparr>)]\<rparr>"
  by (simp add: one_submission_def eval_defs)

lemma valid_one_submission: "valid_run initial one_submission"
  by (simp add: one_submission_def eval_defs)

lemma run_two_submissions_sessions:
  "map (accessToken \<circ> snd) (sessions (run initial two_submissions)) = [[], []]"
  by (simp add: two_submissions_def run_append run_one_submission) (simp add: eval_defs)

lemma valid_two_submissions: "valid_run initial two_submissions"
  by (simp add: two_submissions_def valid_run_append valid_one_submission run_one_submission)
     (simp add: eval_defs)

lemma run_one_exchange:
  "run initial one_exchange =
     \<lparr>sessions = [(hexid CHR ''3'',
         \<lparr>caspioBaseUrl = ''https://c1abc123.caspio.com'', caspioClientId = ''id'',
          caspioClientSecret = ''secret'', accessToken = hexid CHR ''a'',
          refreshToken = hexid CHR ''b'', expiresAt = 86405000, createdAt = 2000\<rparr>)],
      pendingAuths = [],
      authCodes = [],
      sessionsFile = Document [(hexid CHR ''3'',
         \<lparr>caspioBaseUrl = ''https://c1abc123.caspio.com'', caspioClientId = ''id'',
          caspioClientSecret = ''secret'', accessToken = hexid CHR ''a'',
          refreshToken = hexid CHR ''b'', expiresAt = 86405000, createdAt = 2000\<rparr>)]\<rparr>"
  by (simp add: one_exchange_def run_append run_one_submission) (simp add: eval_defs)

lemma valid_one_exchange: "valid_run initial one_exchange"
  by (simp add: one_exchange_def valid_run_append valid_one_submission run_one_submission)
     (simp add: eval_defs)

lemma run_two_exchanges_tokens:
  "map (accessToken \<circ> snd) (sessions (run initial two_exchanges))
     = [hexid CHR ''a'', hexid CHR ''c'']"
  by (simp add: two_exchanges_def two_submissions_def run_append run_one_submission)
     (simp add: eval_defs)

lemma valid_two_exchanges: "valid_run initial two_exchanges"
  by (simp add: two_exchanges_def valid_run_append valid_two_submissions)
     (simp add: two_submissions_def run_append run_one_submission, simp add: eval_defs)

lemma pending_state_eval:
  "pending_state =
     \<lparr>sessions = [],
      pendingAuths = [(hexid CHR ''1'',
         \<lparr>codeChallenge = ''abc'', codeChallengeMethod = ''S256'',
          redirectUri = ''https://client.example/cb'', state = ''xyz'',
          pendingCaspioBaseUrl = None, pendingCaspioClientId = None,
          pendingCaspioClientSecret = None, pendingCreatedAt = 1000\<rparr>)],
      authCodes = [], sessionsFile = NoFile\<rparr>"
  by (simp add: pending_state_def eval_defs)

lemma submit_pending_state:
  "handleAuthorizeSubmit pending_state (submit_params (hexid CHR ''1''))
     (submit_ok (hexid CHR ''2'') (hexid CHR ''3'') 2000)
   = (run initial one_submission,
      Redirect ''https://client.example/cb'' (hexid CHR ''2'') (Some ''xyz''))"
  by (simp add: run_one_submission pending_state_eval) (simp add: eval_defs)

lemma list_tables_failing:
  "handleMcpRequest example_platform failing_backend (run initial one_exchange)
     (Some (''Bearer '' @ hexid CHR ''a'')) (JsonBody (tool_call ''caspio_list_tables'' (Obj [])))
   = ([Call ''listTables'' []],
      RpcError 200 (Num 1) (- 32603)
        ''API request failed: 500 - Login failed for user caspio_db on node 17'')"
  apply (simp add: handleMcpRequest_def tool_call_def getp_def unauthenticatedMethods_def image_iff
           example_platform_def)
  apply (simp add: run_one_exchange getSessionFromRequest_def)
  apply (simp add: handleMcpMethodAuthenticated_def getp_strict_def js_or_def getp_def Let_def)
  apply (simp add: executeTool_def invoke_def failing_backend_def rpc_message_def Let_def ret_def)
  done

lemma delete_table_failing_log:
  "fst (handleMcpRequest example_platform failing_backend (run initial one_exchange)
     (Some (''Bearer '' @ hexid CHR ''a''))
     (JsonBody (tool_call ''caspio_delete_table''
        (Obj [(''tableName'', Str ''Orders''), (''confirm'', Bool True)]))))
   = [Call ''deleteTable'' [Str ''Orders'']]"
  apply (simp add: handleMcpRequest_def tool_call_def getp_def unauthenticatedMethods_def image_iff
           example_platform_def)
  apply (simp add: run_one_exchange getSessionFromRequest_def)
  apply (simp add: handleMcpMethodAuthenticated_def getp_strict_def js_or_def getp_def Let_def)
  apply (simp add: executeTool_def invoke_def failing_backend_def getp_def Let_def)
  done

lemma list_tables_empty_bearer:
  "handleMcpRequest example_platform empty_backend (run initial one_submission)
     (Some (delivered_header ''Bearer '')) (JsonBody (tool_call ''caspio_list_tables'' (Obj [])))
   = ([], Unauthorized)"
  apply (simp add: handleMcpRequest_def tool_call_def getp_def unauthenticatedMethods_def image_iff
           example_platform_def)
  apply (simp add: delivered_empty_bearer bearer_alone_unresolved)
  done

section \<open>The claims\<close>

text \<open>
  C1, as stated: for every code a successful submission minted, a first token request
  with that code succeeds. The code of the example submission expires at 602000; its
  first token request, made at 700000, is answered \<open>invalid_grant\<close>
  (\<open>Code expired\<close>).
\<close>

theorem expired_code_first_request_fails:
  "handleAuthorizeSubmit pending_state (submit_params (hexid CHR ''1''))
     (submit_ok (hexid CHR ''2'') (hexid CHR ''3'') 2000)
   = (run initial one_submission,
      Redirect ''https://client.example/cb'' (hexid CHR ''2'') (Some ''xyz'')) \<and>
   snd (handleToken (run initial one_submission) (code_params (hexid CHR ''2''))
          (token_ok (hexid CHR ''a'') (hexid CHR ''b'') 700000))
   = JsonError 400 ''invalid_grant'' (Some ''Code expired'')"
  by (simp add: submit_pending_state run_one_submission) (simp add: eval_defs)

text \<open>
  C1, amended: a submission answered with the redirect that carries the code \<open>c\<close> (a
  draw of \<open>generateId()\<close>, never empty) has stored \<open>c\<close>, bound to the new session,
  with an expiry ten minutes after minting. In every state that holds \<open>c\<close> and the
  session it is bound to, a token request with grant type \<open>authorization_code\<close> and
  that code returns the token response when it is made no later than the code's
  expiry and \<open>invalid_grant\<close> after it, and deletes the code either way. In every
  state that does not hold \<open>c\<close>, so after that first request, a token request that
  presents \<open>c\<close> is answered \<open>invalid_grant\<close> and changes nothing.
\<close>

theorem authorization_code_single_use:
  assumes sub: "handleAuthorizeSubmit s0 form senv = (s1, Redirect uri c st)"
    and drawn: "codeDraw senv \<noteq> []"
  shows "map_of (authCodes s1) c
           = Some \<lparr>sessionId = sessionDraw senv, codeExpiresAt = nowCode senv + 600000\<rparr> \<and>
         map_of (sessions s1) (sessionDraw senv) \<noteq> None \<and>
         (\<forall>s codeData ps tenv.
            map_of (authCodes s) c = Some codeData \<longrightarrow>
            map_of (sessions s) (sessionId codeData) \<noteq> None \<longrightarrow>
            param_get ps ''grant_type'' = Some ''authorization_code'' \<longrightarrow>
            param_get ps ''code'' = Some c \<longrightarrow>
            snd (handleToken s ps tenv)
              = (if codeExpiresAt codeData < nowCheck tenv
                 then JsonError 400 ''invalid_grant'' (Some ''Code expired'')
                 else TokenJson (accessDraw tenv) (refreshDraw tenv)) \<and>
            map_of (authCodes (fst (handleToken s ps tenv))) c = None) \<and>
         (\<forall>s ps tenv.
            map_of (authCodes s) c = None \<longrightarrow>
            param_get ps ''grant_type'' = Some ''authorization_code'' \<longrightarrow>
            param_get ps ''code'' = Some c \<longrightarrow>
            handleToken s ps tenv
              = (s, JsonError 400 ''invalid_grant'' (Some ''Invalid or expired code'')))"
proof -
  from submit_redirect [OF sub] obtain session where
    c: "c = codeDraw senv"
    and cd: "map_of (authCodes s1) c
               = Some \<lparr>sessionId = sessionDraw senv, codeExpiresAt = nowCode senv + 600000\<rparr>"
    and se: "map_of (sessions s1) (sessionDraw senv) = Some session"
    by blast
  from c drawn have ne: "c \<noteq> []" by simp
  have first: "snd (handleToken s ps tenv)
                 = (if codeExpiresAt codeData < nowCheck tenv
                    then JsonError 400 ''invalid_grant'' (Some ''Code expired'')
                    else TokenJson (accessDraw tenv) (refreshDraw tenv)) \<and>
               map_of (authCodes (fst (handleToken s ps tenv))) c = None"
    if "map_of (authCodes s) c = Some codeData"
      and "map_of (sessions s) (sessionId codeData) \<noteq> None"
      and "param_get ps ''grant_type'' = Some ''authorization_code''"
      and "param_get ps ''code'' = Some c" for s codeData ps tenv
    using that ne
    by (auto simp: handleToken_def Let_def absent_def AList.delete_conv' setSession_def)
  have second: "handleToken s ps tenv
                  = (s, JsonError 400 ''invalid_grant'' (Some ''Invalid or expired code''))"
    if "map_of (authCodes s) c = None"
      and "param_get ps ''grant_type'' = Some ''authorization_code''"
      and "param_get ps ''code'' = Some c" for s ps tenv
    using that by (simp add: handleToken_def Let_def)
  from cd se first second show ?thesis by simp
qed

theorem authorization_code_single_use_witness:
  "snd (handleToken (run initial one_submission) (code_params (hexid CHR ''2''))
          (token_ok (hexid CHR ''a'') (hexid CHR ''b'') 5000))
     = TokenJson (hexid CHR ''a'') (hexid CHR ''b'') \<and>
   snd (handleToken
          (fst (handleToken (run initial one_submission) (code_params (hexid CHR ''2''))
                  (token_ok (hexid CHR ''a'') (hexid CHR ''b'') 5000)))
          (code_params (hexid CHR ''2'')) (token_ok (hexid CHR ''c'') (hexid CHR ''d'') 6000))
     = JsonError 400 ''invalid_grant'' (Some ''Invalid or expired code'')"
proof -
  let ?ps = "code_params (hexid CHR ''2'')"
  let ?t1 = "token_ok (hexid CHR ''a'') (hexid CHR ''b'') 5000"
  let ?t2 = "token_ok (hexid CHR ''c'') (hexid CHR ''d'') 6000"
  let ?s1 = "run initial one_submission"
  let ?cd = "\<lparr>sessionId = sessionDraw (submit_ok (hexid CHR ''2'') (hexid CHR ''3'') 2000),
              codeExpiresAt = nowCode (submit_ok (hexid CHR ''2'') (hexid CHR ''3'') 2000) + 600000\<rparr>"
  have d: "codeDraw (submit_ok (hexid CHR ''2'') (hexid CHR ''3'') 2000) \<noteq> []"
    by (simp add: submit_ok_def)
  have g: "param_get ?ps ''grant_type'' = Some ''authorization_code''"
    by (simp add: code_params_def param_get_def)
  have c: "param_get ?ps ''code'' = Some (hexid CHR ''2'')"
    by (simp add: code_params_def param_get_def)
  note facts = authorization_code_single_use [OF submit_pending_state d]
  from facts have minted: "map_of (authCodes ?s1) (hexid CHR ''2'') = Some ?cd"
    and bound: "map_of (sessions ?s1) (sessionId ?cd) \<noteq> None"
    by simp_all
  from facts have
    "map_of (authCodes ?s1) (hexid CHR ''2'') = Some ?cd \<longrightarrow>
     map_of (sessions ?s1) (sessionId ?cd) \<noteq> None \<longrightarrow>
     param_get ?ps ''grant_type'' = Some ''authorization_code'' \<longrightarrow>
     param_get ?ps ''code'' = Some (hexid CHR ''2'') \<longrightarrow>
     snd (handleToken ?s1 ?ps ?t1)
       = (if codeExpiresAt ?cd < nowCheck ?t1
          then JsonError 400 ''invalid_grant'' (Some ''Code expired'')
          else TokenJson (accessDraw ?t1) (refreshDraw ?t1)) \<and>
     map_of (authCodes (fst (handleToken ?s1 ?ps ?t1))) (hexid CHR ''2'') = None"
    by blast
  with minted bound g c have
    first: "snd (handleToken ?s1 ?ps ?t1) = TokenJson (hexid CHR ''a'') (hexid CHR ''b'')"
    and gone: "map_of (authCodes (fst (handleToken ?s1 ?ps ?t1))) (hexid CHR ''2'') = None"
    by (simp_all add: submit_ok_def token_ok_def)
  from facts have
    "map_of (authCodes (fst (handleToken ?s1 ?ps ?t1))) (hexid CHR ''2'') = None \<longrightarrow>
     param_get ?ps ''grant_type'' = Some ''authorization_code'' \<longrightarrow>
     param_get ?ps ''code'' = Some (hexid CHR ''2'') \<longrightarrow>
     handleToken (fst (handleToken ?s1 ?ps ?t1)) ?ps ?t2
       = (fst (handleToken ?s1 ?ps ?t1),
          JsonError 400 ''invalid_grant'' (Some ''Invalid or expired code''))"
    by blast
  with gone g c have
    "snd (handleToken (fst (handleToken ?s1 ?ps ?t1)) ?ps ?t2)
       = JsonError 400 ''invalid_grant'' (Some ''Invalid or expired code'')"
    by simp
  with first show ?thesis by simp
qed

text \<open>
  C2: in every state a run with fresh draws reaches, a successful \<open>refresh_token\<close>
  grant (with fresh draws) replaces both tokens of the session found: the session
  carries the two new tokens, which differ from the prior ones; the prior access token
  no longer resolves any session at the gate; and every token request that presents
  the prior refresh token is answered \<open>invalid_grant\<close> and changes nothing.
\<close>

theorem refresh_rotates_both_tokens:
  assumes run: "valid_run initial evs"
    and fa: "fresh (run initial evs) (accessDraw env)"
    and fr: "fresh (run initial evs) (refreshDraw env)"
    and grant: "param_get ps ''grant_type'' = Some ''refresh_token''"
    and tok: "param_get ps ''refresh_token'' = Some r"
    and granted: "handleToken (run initial evs) ps env = (s', TokenJson a' r')"
  shows "\<exists>sid old.
           findByRefreshToken (sessions (run initial evs)) r = Some (sid, old) \<and>
           map_of (sessions s') sid
             = Some (old\<lparr>accessToken := accessDraw env, refreshToken := refreshDraw env,
                          expiresAt := nowIssue env + 86400000\<rparr>) \<and>
           accessDraw env \<noteq> accessToken old \<and> refreshDraw env \<noteq> r \<and>
           getSessionFromRequest s' (Some (''Bearer '' @ accessToken old)) = None \<and>
           (\<forall>ps2 env2. param_get ps2 ''grant_type'' = Some ''refresh_token'' \<longrightarrow>
              param_get ps2 ''refresh_token'' = Some r \<longrightarrow>
              handleToken s' ps2 env2
                = (s', JsonError 400 ''invalid_grant'' (Some ''Invalid refresh token'')))"
proof -
  let ?s = "run initial evs"
  have "state_ok ?s" using initial_ok run by (rule run_ok)
  then have ok: "store_ok (sessions ?s)" by (simp add: state_ok_def)
  from refresh_granted [OF grant tok granted] obtain sid old where
    found: "findByRefreshToken (sessions ?s) r = Some (sid, old)"
    and rne: "r \<noteq> []"
    and s': "s' = setSession (tokenWriteOk env) sid
                   (old\<lparr>accessToken := accessDraw env, refreshToken := refreshDraw env,
                         expiresAt := nowIssue env + 86400000\<rparr>) ?s"
    by blast
  let ?new = "old\<lparr>accessToken := accessDraw env, refreshToken := refreshDraw env,
                  expiresAt := nowIssue env + 86400000\<rparr>"
  from findByRefreshToken_Some [OF found]
  have mem: "(sid, old) \<in> set (sessions ?s)" and rold: "refreshToken old = r" by simp_all
  have fa': "\<forall>p \<in> set (sessions ?s). accessToken (snd p) \<noteq> accessToken ?new"
    using fresh_access [OF fa] by (auto simp: image_iff)
  have fr': "\<forall>p \<in> set (sessions ?s). refreshToken (snd p) \<noteq> refreshToken ?new"
    using fresh_refresh [OF fr] by (auto simp: image_iff)
  have gone: "accessToken (snd q) \<noteq> accessToken old \<and> refreshToken (snd q) \<noteq> r"
    if "q \<in> set (sessions s')" for q
    using rotated_tokens_gone [OF ok mem _ fa' fr', of q] that rold rne by (simp add: s')
  have stored: "map_of (sessions s') sid = Some ?new"
    by (simp add: s' AList.update_conv')
  have new_a: "accessDraw env \<noteq> accessToken old"
    using fa' mem by force
  have new_r: "refreshDraw env \<noteq> r"
    using fr' mem rold by force
  have gate: "getSessionFromRequest s' (Some (''Bearer '' @ accessToken old)) = None"
    using gone by (simp add: getSessionFromRequest_def find_session_None)
  have none: "findByRefreshToken (sessions s') r = None"
    using gone by (simp add: findByRefreshToken_None)
  have again: "handleToken s' ps2 env2
                 = (s', JsonError 400 ''invalid_grant'' (Some ''Invalid refresh token''))"
    if "param_get ps2 ''grant_type'' = Some ''refresh_token''"
      and "param_get ps2 ''refresh_token'' = Some r" for ps2 env2
    using that none rne by (simp add: handleToken_def Let_def absent_def)
  from found stored new_a new_r gate again show ?thesis by blast
qed

theorem refresh_rotates_both_tokens_witness:
  "snd (handleToken (run initial one_exchange) (refresh_params (hexid CHR ''b''))
          (token_ok (hexid CHR ''c'') (hexid CHR ''d'') 6000))
     = TokenJson (hexid CHR ''c'') (hexid CHR ''d'') \<and>
   getSessionFromRequest (run initial one_exchange) (Some (''Bearer '' @ hexid CHR ''a''))
     \<noteq> None \<and>
   getSessionFromRequest
     (fst (handleToken (run initial one_exchange) (refresh_params (hexid CHR ''b''))
             (token_ok (hexid CHR ''c'') (hexid CHR ''d'') 6000)))
     (Some (''Bearer '' @ hexid CHR ''a'')) = None \<and>
   snd (handleToken
          (fst (handleToken (run initial one_exchange) (refresh_params (hexid CHR ''b''))
                  (token_ok (hexid CHR ''c'') (hexid CHR ''d'') 6000)))
          (refresh_params (hexid CHR ''b'')) (token_ok (hexid CHR ''e'') (hexid CHR ''f'') 7000))
     = JsonError 400 ''invalid_grant'' (Some ''Invalid refresh token'')"
proof -
  let ?env = "token_ok (hexid CHR ''c'') (hexid CHR ''d'') 6000"
  let ?ps = "refresh_params (hexid CHR ''b'')"
  have fa: "fresh (run initial one_exchange) (accessDraw ?env)"
    by (simp add: run_one_exchange) (simp add: eval_defs)
  have fr: "fresh (run initial one_exchange) (refreshDraw ?env)"
    by (simp add: run_one_exchange) (simp add: eval_defs)
  have g: "param_get ?ps ''grant_type'' = Some ''refresh_token''"
    by (simp add: refresh_params_def param_get_def)
  have t: "param_get ?ps ''refresh_token'' = Some (hexid CHR ''b'')"
    by (simp add: refresh_params_def param_get_def)
  have granted: "handleToken (run initial one_exchange) ?ps ?env
                   = (fst (handleToken (run initial one_exchange) ?ps ?env),
                      TokenJson (hexid CHR ''c'') (hexid CHR ''d''))"
    by (simp add: run_one_exchange) (simp add: eval_defs)
  have found: "findByRefreshToken (sessions (run initial one_exchange)) (hexid CHR ''b'')
                 = Some (hexid CHR ''3'',
                     \<lparr>caspioBaseUrl = ''https://c1abc123.caspio.com'', caspioClientId = ''id'',
                      caspioClientSecret = ''secret'', accessToken = hexid CHR ''a'',
                      refreshToken = hexid CHR ''b'', expiresAt = 86405000, createdAt = 2000\<rparr>)"
    by (simp add: run_one_exchange findByRefreshToken_def)
  have before: "getSessionFromRequest (run initial one_exchange)
                  (Some (''Bearer '' @ hexid CHR ''a'')) \<noteq> None"
    by (simp add: run_one_exchange getSessionFromRequest_def)
  from refresh_rotates_both_tokens [OF valid_one_exchange fa fr g t granted] found before
    granted g t
  show ?thesis by (auto simp: prod_eq_iff)
qed

text \<open>
  C3: the destructive operations are the ones whose input schema declares \<open>confirm\<close>:
  the deletion of a table, a field, records and a file in both servers, and of a
  directory user in the local one. When \<open>args.confirm\<close> is falsy (absent, \<open>false\<close>,
  or another falsy value) each of them throws the error \<open>Deletion not confirmed\<close>
  with no invocation of the collaborator made; the handler of the local server turns
  the throw into an error text, again with no invocation.
\<close>

theorem destructive_operations_need_confirm:
  assumes "\<not> truthy (getp args ''confirm'')"
  shows "(\<forall>name \<in> set (destructive toolCatalog).
            executeTool str cl (Str name) args = ([], Inl notConfirmed)) \<and>
         (\<forall>name \<in> set (destructive toolCatalogStdio).
            executeToolStdio str cl name args = ([], Inl notConfirmed) \<and>
            callToolHandler str cl name args
              = ([], Inr (ToolTextError
                            (Obj [(''error'',
                                   Str ''Deletion not confirmed. Set confirm=true to proceed.'')])))) \<and>
         destructive toolCatalog =
           [''caspio_delete_table'', ''caspio_delete_field'', ''caspio_delete_records'',
            ''caspio_delete_file''] \<and>
         destructive toolCatalogStdio =
           [''caspio_delete_table'', ''caspio_delete_field'', ''caspio_delete_records'',
            ''caspio_delete_file'', ''caspio_delete_directory_user'']"
proof (intro conjI ballI)
  fix name
  assume "name \<in> set (destructive toolCatalog)"
  with assms show "executeTool str cl (Str name) args = ([], Inl notConfirmed)"
    by (rule executeTool_unconfirmed)
next
  fix name
  assume n: "name \<in> set (destructive toolCatalogStdio)"
  with assms show "executeToolStdio str cl name args = ([], Inl notConfirmed)"
    by (rule executeToolStdio_unconfirmed)
  from executeToolStdio_unconfirmed [OF js_or_unconfirmed [OF assms] n, of str cl]
  show "callToolHandler str cl name args
          = ([], Inr (ToolTextError
                        (Obj [(''error'',
                               Str ''Deletion not confirmed. Set confirm=true to proceed.'')])))"
    by (simp add: callToolHandler_def notConfirmed_def)
next
  show "destructive toolCatalog =
          [''caspio_delete_table'', ''caspio_delete_field'', ''caspio_delete_records'',
           ''caspio_delete_file'']"
    by (rule destructive_toolCatalog)
next
  show "destructive toolCatalogStdio =
          [''caspio_delete_table'', ''caspio_delete_field'', ''caspio_delete_records'',
           ''caspio_delete_file'', ''caspio_delete_directory_user'']"
    by (rule destructive_toolCatalogStdio)
qed

theorem destructive_operations_need_confirm_witness:
  "executeTool example_string (empty_backend [] [] []) (Str ''caspio_delete_table'')
     (Obj [(''tableName'', Str ''Orders'')]) = ([], Inl notConfirmed) \<and>
   callToolHandler example_string (empty_backend [] [] []) ''caspio_delete_directory_user''
     (Obj [(''directoryName'', Str ''staff''), (''externalKey'', Str ''u1''),
           (''confirm'', Bool False)])
     = ([], Inr (ToolTextError
                   (Obj [(''error'', Str ''Deletion not confirmed. Set confirm=true to proceed.'')]))) \<and>
   fst (executeTool example_string (empty_backend [] [] []) (Str ''caspio_delete_table'')
          (Obj [(''tableName'', Str ''Orders''), (''confirm'', Bool True)]))
     = [Call ''deleteTable'' [Str ''Orders'']]"
proof -
  have absent: "\<not> truthy (getp (Obj [(''tableName'', Str ''Orders'')]) ''confirm'')"
    by (simp add: getp_def)
  have false: "\<not> truthy (getp (Obj [(''directoryName'', Str ''staff''),
                  (''externalKey'', Str ''u1''), (''confirm'', Bool False)]) ''confirm'')"
    by (simp add: getp_def)
  have t: "''caspio_delete_table'' \<in> set (destructive toolCatalog)"
    by (simp add: destructive_toolCatalog)
  have u: "''caspio_delete_directory_user'' \<in> set (destructive toolCatalogStdio)"
    by (simp add: destructive_toolCatalogStdio)
  from destructive_operations_need_confirm [OF absent, of example_string "empty_backend [] [] []"] t
  have one: "executeTool example_string (empty_backend [] [] []) (Str ''caspio_delete_table'')
               (Obj [(''tableName'', Str ''Orders'')]) = ([], Inl notConfirmed)"
    by blast
  from destructive_operations_need_confirm [OF false, of example_string "empty_backend [] [] []"] u
  have two: "callToolHandler example_string (empty_backend [] [] []) ''caspio_delete_directory_user''
               (Obj [(''directoryName'', Str ''staff''), (''externalKey'', Str ''u1''),
                     (''confirm'', Bool False)])
             = ([], Inr (ToolTextError
                           (Obj [(''error'', Str ''Deletion not confirmed. Set confirm=true to proceed.'')])))"
    by blast
  have three: "fst (executeTool example_string (empty_backend [] [] []) (Str ''caspio_delete_table'')
                      (Obj [(''tableName'', Str ''Orders''), (''confirm'', Bool True)]))
                 = [Call ''deleteTable'' [Str ''Orders'']]"
    by (simp add: executeTool_def Let_def getp_def invoke_def empty_backend_def render_def)
  from one two three show ?thesis by simp
qed

text \<open>
  C4, as stated: no two sessions in the store have equal \<open>accessToken\<close> values. Two
  submissions in a row, each with fresh draws, leave two sessions whose access token is
  the empty string that \<open>handleAuthorizeSubmit\<close> stores until the exchange.
\<close>

theorem access_tokens_not_unique:
  "valid_run initial two_submissions \<and>
   \<not> distinct (map (accessToken \<circ> snd) (sessions (run initial two_submissions)))"
  by (simp only: valid_two_submissions run_two_submissions_sessions) simp

text \<open>
  C4, amended: in every state a run with fresh draws reaches from the empty server,
  the access tokens that have been issued (the non-empty ones) are pairwise distinct
  among the sessions of the store.
\<close>

theorem issued_access_tokens_unique:
  assumes "valid_run initial evs"
  shows "distinct (issued (map (accessToken \<circ> snd) (sessions (run initial evs))))"
proof -
  have "state_ok (run initial evs)"
    using initial_ok assms by (rule run_ok)
  then show ?thesis by (simp add: state_ok_def store_ok_def)
qed

theorem issued_access_tokens_unique_witness:
  "valid_run initial two_exchanges \<and>
   distinct (issued (map (accessToken \<circ> snd) (sessions (run initial two_exchanges)))) \<and>
   map (accessToken \<circ> snd) (sessions (run initial two_exchanges))
     = [hexid CHR ''a'', hexid CHR ''c''] \<and>
   issued (map (accessToken \<circ> snd) (sessions (run initial two_exchanges)))
     = [hexid CHR ''a'', hexid CHR ''c'']"
  using issued_access_tokens_unique [OF valid_two_exchanges]
  by (simp add: valid_two_exchanges run_two_exchanges_tokens issued_def)
text \<open>
  C5: a submission that reaches the live check (known pending id, the three
  credential fields filled in) and whose check fails, by returning \<open>false\<close> or by
  throwing, leaves the whole state as it was: no session, no code, the pending record
  untouched, the file unwritten. The form is shown again with status 400; a further
  submission for the same pending id whose check succeeds is redirected with a code;
  and a sweep within ten minutes of the record's creation keeps the record.
\<close>

theorem failed_check_changes_nothing:
  assumes failed: "connection env \<noteq> ConnTrue"
    and auth: "param_get ps ''auth_id'' = Some authId"
    and ne: "authId \<noteq> []"
    and pending: "map_of (pendingAuths s) authId = Some p"
    and url: "\<not> absent (map_option strip_trailing_slash (param_get ps ''caspio_base_url''))"
    and cid: "\<not> absent (param_get ps ''caspio_client_id'')"
    and secret: "\<not> absent (param_get ps ''caspio_client_secret'')"
  shows "fst (handleAuthorizeSubmit s ps env) = s \<and>
         (\<exists>msg. snd (handleAuthorizeSubmit s ps env) = HtmlForm 400 authId (Some msg)) \<and>
         (\<forall>env'. connection env' = ConnTrue \<longrightarrow> redirectParses env' \<longrightarrow>
            snd (handleAuthorizeSubmit (fst (handleAuthorizeSubmit s ps env)) ps env')
              = Redirect (redirectUri p) (codeDraw env')
                  (if state p \<noteq> [] then Some (state p) else None)) \<and>
         (\<forall>now w. \<not> pendingCreatedAt p + 600000 < now \<longrightarrow>
            map_of (pendingAuths (sweep now w (fst (handleAuthorizeSubmit s ps env)))) authId
              = Some p)"
proof -
  have same: "fst (handleAuthorizeSubmit s ps env) = s"
    using failed by (cases "connection env") (simp_all add: handleAuthorizeSubmit_def Let_def)
  have form: "\<exists>msg. snd (handleAuthorizeSubmit s ps env) = HtmlForm 400 authId (Some msg)"
    using failed auth ne pending url cid secret
    by (cases "connection env") (simp_all add: handleAuthorizeSubmit_def Let_def absent_def)
  have retry: "snd (handleAuthorizeSubmit s ps env')
                 = Redirect (redirectUri p) (codeDraw env')
                     (if state p \<noteq> [] then Some (state p) else None)"
    if "connection env' = ConnTrue" and "redirectParses env'" for env'
    using that auth ne pending url cid secret
    by (simp add: handleAuthorizeSubmit_def Let_def absent_def)
  have kept: "map_of (pendingAuths (sweep now w s)) authId = Some p"
    if "\<not> pendingCreatedAt p + 600000 < now" for now w
    using that pending by (simp add: sweep_pendingAuths map_of_filter_in)
  from same form retry kept show ?thesis by simp
qed

theorem failed_check_changes_nothing_witness:
  "handleAuthorizeSubmit pending_state (submit_params (hexid CHR ''1''))
     ((submit_ok (hexid CHR ''2'') (hexid CHR ''3'') 2000)
        \<lparr>connection := ConnThrows (ErrorObj ''bad credentials'')\<rparr>)
   = (pending_state, HtmlForm 400 (hexid CHR ''1'') (Some ''Connection failed: bad credentials'')) \<and>
   snd (handleAuthorizeSubmit pending_state (submit_params (hexid CHR ''1''))
          (submit_ok (hexid CHR ''2'') (hexid CHR ''3'') 2000))
   = Redirect ''https://client.example/cb'' (hexid CHR ''2'') (Some ''xyz'') \<and>
   map_of (pendingAuths (sweep 601000 True pending_state)) (hexid CHR ''1'')
     = map_of (pendingAuths pending_state) (hexid CHR ''1'')"
proof -
  let ?env = "(submit_ok (hexid CHR ''2'') (hexid CHR ''3'') 2000)
                \<lparr>connection := ConnThrows (ErrorObj ''bad credentials'')\<rparr>"
  let ?p = "\<lparr>codeChallenge = ''abc'', codeChallengeMethod = ''S256'',
             redirectUri = ''https://client.example/cb'', state = ''xyz'',
             pendingCaspioBaseUrl = None, pendingCaspioClientId = None,
             pendingCaspioClientSecret = None, pendingCreatedAt = 1000\<rparr>"
  have f: "connection ?env \<noteq> ConnTrue"
    by (simp add: submit_ok_def)
  have a: "param_get (submit_params (hexid CHR ''1'')) ''auth_id'' = Some (hexid CHR ''1'')"
    by (simp add: submit_params_def param_get_def)
  have n: "hexid CHR ''1'' \<noteq> []"
    by simp
  have p: "map_of (pendingAuths pending_state) (hexid CHR ''1'') = Some ?p"
    by (simp add: pending_state_eval)
  have u: "\<not> absent (map_option strip_trailing_slash
                  (param_get (submit_params (hexid CHR ''1'')) ''caspio_base_url''))"
    by (simp add: submit_params_def param_get_def absent_def strip_trailing_slash_def)
  have i: "\<not> absent (param_get (submit_params (hexid CHR ''1'')) ''caspio_client_id'')"
    by (simp add: submit_params_def param_get_def absent_def)
  have k: "\<not> absent (param_get (submit_params (hexid CHR ''1'')) ''caspio_client_secret'')"
    by (simp add: submit_params_def param_get_def absent_def)
  have msg: "snd (handleAuthorizeSubmit pending_state (submit_params (hexid CHR ''1'')) ?env)
               = HtmlForm 400 (hexid CHR ''1'') (Some ''Connection failed: bad credentials'')"
    by (simp add: pending_state_eval) (simp add: eval_defs)
  note facts = failed_check_changes_nothing [OF f a n p u i k]
  from facts have same:
    "fst (handleAuthorizeSubmit pending_state (submit_params (hexid CHR ''1'')) ?env)
       = pending_state"
    by blast
  from facts have
    "connection env' = ConnTrue \<longrightarrow> redirectParses env' \<longrightarrow>
     snd (handleAuthorizeSubmit
            (fst (handleAuthorizeSubmit pending_state (submit_params (hexid CHR ''1'')) ?env))
            (submit_params (hexid CHR ''1'')) env')
       = Redirect (redirectUri ?p) (codeDraw env') (if state ?p \<noteq> [] then Some (state ?p) else None)"
    for env'
    by blast
  from this [of "submit_ok (hexid CHR ''2'') (hexid CHR ''3'') 2000"] same
  have retry:
    "snd (handleAuthorizeSubmit pending_state (submit_params (hexid CHR ''1''))
            (submit_ok (hexid CHR ''2'') (hexid CHR ''3'') 2000))
       = Redirect ''https://client.example/cb'' (hexid CHR ''2'') (Some ''xyz'')"
    by (simp add: submit_ok_def)
  from facts have
    "\<not> pendingCreatedAt ?p + 600000 < now \<longrightarrow>
     map_of (pendingAuths (sweep now w
        (fst (handleAuthorizeSubmit pending_state (submit_params (hexid CHR ''1'')) ?env))))
        (hexid CHR ''1'') = Some ?p"
    for now w
    by blast
  from this [of 601000 True] same p
  have kept: "map_of (pendingAuths (sweep 601000 True pending_state)) (hexid CHR ''1'')
                = map_of (pendingAuths pending_state) (hexid CHR ''1'')"
    by simp
  from same msg retry kept show ?thesis by (simp add: prod_eq_iff)
qed

text \<open>
  C6, as stated: every authorize request without \<open>redirect_uri\<close> yields
  \<open>invalid_request\<close>. The handler tests \<open>response_type\<close> first: a request with
  \<open>response_type=token\<close> and no \<open>redirect_uri\<close> is answered
  \<open>unsupported_response_type\<close>.
\<close>

theorem authorize_without_redirect_uri_other_error:
  "absent (param_get [(''response_type'', ''token'')] ''redirect_uri'') \<and>
   snd (handleAuthorize initial [(''response_type'', ''token'')] (hexid CHR ''1'') 1000)
     = JsonError 400 ''unsupported_response_type'' None \<and>
   snd (handleAuthorize initial [(''response_type'', ''token'')] (hexid CHR ''1'') 1000)
     \<noteq> JsonError 400 ''invalid_request'' (Some ''redirect_uri required'')"
  by (simp add: eval_defs)

text \<open>
  C6, amended: an authorize request whose \<open>redirect_uri\<close> is missing or empty leaves
  the state, and so the pending registry, unchanged; it is answered \<open>invalid_request\<close>
  when \<open>response_type\<close> is \<open>code\<close> and \<open>unsupported_response_type\<close> otherwise.
\<close>

theorem authorize_without_redirect_uri:
  assumes "absent (param_get ps ''redirect_uri'')"
  shows "fst (handleAuthorize s ps authId now) = s \<and>
         snd (handleAuthorize s ps authId now) =
           (if param_get ps ''response_type'' = Some ''code''
            then JsonError 400 ''invalid_request'' (Some ''redirect_uri required'')
            else JsonError 400 ''unsupported_response_type'' None)"
  using assms by (simp add: handleAuthorize_def Let_def)

theorem authorize_without_redirect_uri_witness:
  "handleAuthorize (run initial one_submission)
     [(''response_type'', ''code''), (''state'', ''xyz'')] (hexid CHR ''7'') 3000
   = (run initial one_submission,
      JsonError 400 ''invalid_request'' (Some ''redirect_uri required''))"
proof -
  have a: "absent (param_get [(''response_type'', ''code''), (''state'', ''xyz'')] ''redirect_uri'')"
    by (simp add: param_get_def absent_def)
  show ?thesis
    using authorize_without_redirect_uri [OF a, of "run initial one_submission" "hexid CHR ''7''" 3000]
    by (simp add: prod_eq_iff param_get_def)
qed

text \<open>
  C7: for every session map (distinct keys) whose keys are identifiers of
  \<open>generateId()\<close>, 64 hexadecimal digits each, as those of every session the server
  creates are, writing the file and starting a new process on it at time \<open>now\<close> loads
  exactly the sessions whose \<open>expiresAt\<close> exceeds \<open>now\<close>, in their order and with
  every record as it was; saving and loading again at the same time changes nothing
  more.
\<close>

theorem save_load_roundtrip:
  assumes "distinct (map fst (sessions s))"
    and "\<forall>k \<in> fst ` set (sessions s). generated_id k"
  shows "sessions (startup (sessionsFile (saveSessions True s)) now)
           = filter (\<lambda>(key, session). expiresAt session > now) (sessions s) \<and>
         sessions (startup (sessionsFile
             (saveSessions True (startup (sessionsFile (saveSessions True s)) now))) now)
           = sessions (startup (sessionsFile (saveSessions True s)) now)"
proof -
  let ?live = "filter (\<lambda>(key, session). expiresAt session > now) (sessions s)"
  let ?s1 = "startup (sessionsFile (saveSessions True s)) now"
  have first: "sessions ?s1 = ?live"
    using assms by (simp add: saveSessions_file startup_sessions)
  have "distinct (map fst (sessions ?s1))"
    using assms by (simp add: first distinct_map_filter)
  moreover have "\<forall>k \<in> fst ` set (sessions ?s1). generated_id k"
    using assms(2) by (auto simp: first)
  ultimately have "sessions (startup (sessionsFile (saveSessions True ?s1)) now)
               = filter (\<lambda>(key, session). expiresAt session > now) (sessions ?s1)"
    by (simp add: saveSessions_file startup_sessions)
  also have "\<dots> = sessions ?s1"
    by (simp add: first)
  finally show ?thesis using first by simp
qed

theorem save_load_roundtrip_witness:
  "sessions (startup (sessionsFile (saveSessions True (run initial one_exchange))) 86405000) = [] \<and>
   sessions (startup (sessionsFile (saveSessions True (run initial one_exchange))) 86404999)
     = sessions (run initial one_exchange)"
proof -
  have d: "distinct (map fst (sessions (run initial one_exchange)))"
    by (simp add: run_one_exchange)
  have g: "\<forall>k \<in> fst ` set (sessions (run initial one_exchange)). generated_id k"
    by (simp add: run_one_exchange hexid_generated)
  show ?thesis
    using save_load_roundtrip [OF d g, of 86405000] save_load_roundtrip [OF d g, of 86404999]
    by (simp add: run_one_exchange)
qed

text \<open>
  C8: the token endpoint does not depend on \<open>code_verifier\<close>. Two request bodies
  that agree on every parameter but \<open>code_verifier\<close> (present, absent or different)
  get the same response and leave the same state, whatever the grant type; and the
  response does not depend on the pending registry, where the PKCE challenge is stored.
\<close>

theorem token_ignores_code_verifier:
  assumes "\<forall>name. name \<noteq> ''code_verifier'' \<longrightarrow> param_get ps1 name = param_get ps2 name"
  shows "handleToken s ps1 env = handleToken s ps2 env \<and>
         snd (handleToken (s\<lparr>pendingAuths := pa\<rparr>) ps1 env) = snd (handleToken s ps2 env)"
proof -
  have g: "param_get ps1 ''grant_type'' = param_get ps2 ''grant_type''"
    using assms by simp
  have c: "param_get ps1 ''code'' = param_get ps2 ''code''"
    using assms by simp
  have r: "param_get ps1 ''refresh_token'' = param_get ps2 ''refresh_token''"
    using assms by simp
  show ?thesis
    by (simp add: handleToken_def Let_def g c r setSession_def saveSessions_def
          split: option.splits)
qed

theorem token_ignores_code_verifier_witness:
  "handleToken (run initial one_submission)
     (code_params (hexid CHR ''2'') @ [(''code_verifier'', ''not-the-challenge'')])
     (token_ok (hexid CHR ''a'') (hexid CHR ''b'') 5000)
   = handleToken (run initial one_submission) (code_params (hexid CHR ''2''))
       (token_ok (hexid CHR ''a'') (hexid CHR ''b'') 5000) \<and>
   snd (handleToken (run initial one_submission)
     (code_params (hexid CHR ''2'') @ [(''code_verifier'', ''not-the-challenge'')])
     (token_ok (hexid CHR ''a'') (hexid CHR ''b'') 5000))
   = TokenJson (hexid CHR ''a'') (hexid CHR ''b'')"
proof -
  have h: "\<forall>name. name \<noteq> ''code_verifier'' \<longrightarrow>
             param_get (code_params (hexid CHR ''2'') @ [(''code_verifier'', ''not-the-challenge'')]) name
               = param_get (code_params (hexid CHR ''2'')) name"
    by (simp add: param_get_def code_params_def)
  have t: "snd (handleToken (run initial one_submission) (code_params (hexid CHR ''2''))
                  (token_ok (hexid CHR ''a'') (hexid CHR ''b'') 5000))
             = TokenJson (hexid CHR ''a'') (hexid CHR ''b'')"
    by (simp add: run_one_submission) (simp add: eval_defs)
  show ?thesis
    using token_ignores_code_verifier [OF h, of "run initial one_submission"
        "token_ok (hexid CHR ''a'') (hexid CHR ''b'') 5000"] t
    by simp
qed

text \<open>
  C9, as stated: no internals of the collaborator reach the caller. The collaborator
  of the example throws the error of a failed API request, whose message carries the
  status and the text the backend answered; the JSON-RPC error sent to the caller has
  that very message.
\<close>

theorem backend_message_is_propagated:
  "failing_backend ''https://c1abc123.caspio.com'' ''id'' ''secret'' [] (Call ''listTables'' [])
     = Inl (ErrorObj ''API request failed: 500 - Login failed for user caspio_db on node 17'') \<and>
   handleMcpRequest example_platform failing_backend (run initial one_exchange)
     (Some (''Bearer '' @ hexid CHR ''a'')) (JsonBody (tool_call ''caspio_list_tables'' (Obj [])))
   = ([Call ''listTables'' []],
      RpcError 200 (Num 1) (- 32603)
        ''API request failed: 500 - Login failed for user caspio_db on node 17'')"
  by (simp only: list_tables_failing) (simp add: failing_backend_def)

text \<open>
  C9, amended: when an authenticated call (a session resolved, a method outside the
  allow-list) has invoked the collaborator and the last invocation threw, the caller
  receives, with status 200, the JSON-RPC error of code -32603 for the request's id;
  its message is the message of the thrown \<open>Error\<close>, and \<open>Internal error\<close> only
  when the thrown value is no \<open>Error\<close>.
\<close>

theorem backend_throw_becomes_rpc_error:
  assumes auth: "getSessionFromRequest s authHeader = Some session"
    and obj: "rpcRequest \<noteq> Null" "rpcRequest \<noteq> Undefined"
    and gated: "getp rpcRequest ''method'' \<notin> Str ` set unauthenticatedMethods"
    and answer: "handleMcpRequest pf backend s authHeader (JsonBody rpcRequest) = (log, resp)"
    and made: "log \<noteq> []"
    and threw: "backend (caspioBaseUrl session) (caspioClientId session)
                  (caspioClientSecret session) (butlast log) (last log) = Inl error"
  shows "resp = RpcError 200 (getp rpcRequest ''id'') (- 32603)
                  (case error of ErrorObj m \<Rightarrow> m | NonError v \<Rightarrow> ''Internal error'')"
proof -
  let ?cl = "backend (caspioBaseUrl session) (caspioClientId session) (caspioClientSecret session)"
  obtain log' r where out: "handleMcpMethodAuthenticated pf ?cl rpcRequest = (log', r)"
    by (cases "handleMcpMethodAuthenticated pf ?cl rpcRequest")
  from answer auth obj gated out made have l: "log' = log"
    by (cases r) (simp_all add: handleMcpRequest_def Let_def split: if_splits)
  from authenticated_throw [OF gated out [unfolded l] made threw] have r: "r = Inl error" .
  from answer auth obj gated out made r show ?thesis
    by (simp add: handleMcpRequest_def Let_def rpc_message_def split: if_splits)
qed

theorem backend_throw_becomes_rpc_error_witness:
  "handleMcpRequest example_platform failing_backend (run initial one_exchange)
     (Some (''Bearer '' @ hexid CHR ''a''))
     (JsonBody (tool_call ''caspio_delete_table''
        (Obj [(''tableName'', Str ''Orders''), (''confirm'', Bool True)])))
   = ([Call ''deleteTable'' [Str ''Orders'']],
      RpcError 200 (Num 1) (- 32603)
        ''API request failed: 500 - Login failed for user caspio_db on node 17'')"
proof -
  let ?session = "\<lparr>caspioBaseUrl = ''https://c1abc123.caspio.com'', caspioClientId = ''id'',
          caspioClientSecret = ''secret'', accessToken = hexid CHR ''a'',
          refreshToken = hexid CHR ''b'', expiresAt = 86405000, createdAt = 2000\<rparr>"
  let ?req = "tool_call ''caspio_delete_table''
                (Obj [(''tableName'', Str ''Orders''), (''confirm'', Bool True)])"
  let ?out = "handleMcpRequest example_platform failing_backend (run initial one_exchange)
                (Some (''Bearer '' @ hexid CHR ''a'')) (JsonBody ?req)"
  have auth: "getSessionFromRequest (run initial one_exchange)
                (Some (''Bearer '' @ hexid CHR ''a'')) = Some ?session"
    by (simp add: run_one_exchange getSessionFromRequest_def)
  have o1: "?req \<noteq> Null" and o2: "?req \<noteq> Undefined"
    by (simp_all add: tool_call_def)
  have gated: "getp ?req ''method'' \<notin> Str ` set unauthenticatedMethods"
    by (simp add: tool_call_def getp_def unauthenticatedMethods_def image_iff)
  have answer: "?out = ([Call ''deleteTable'' [Str ''Orders'']], snd ?out)"
    using delete_table_failing_log by (simp add: prod_eq_iff)
  have made: "[Call ''deleteTable'' [Str ''Orders'']] \<noteq> []"
    by simp
  have threw: "failing_backend (caspioBaseUrl ?session) (caspioClientId ?session)
                 (caspioClientSecret ?session) (butlast [Call ''deleteTable'' [Str ''Orders'']])
                 (last [Call ''deleteTable'' [Str ''Orders'']])
               = Inl (ErrorObj ''API request failed: 500 - Login failed for user caspio_db on node 17'')"
    by (simp add: failing_backend_def)
  have id: "getp ?req ''id'' = Num 1"
    by (simp add: tool_call_def getp_def)
  from backend_throw_becomes_rpc_error [OF auth o1 o2 gated answer made threw]
  have "snd ?out = RpcError 200 (Num 1) (- 32603)
          ''API request failed: 500 - Login failed for user caspio_db on node 17''"
    by (simp only: id thrown.case)
  with answer show ?thesis by simp
qed


text \<open>
  C10, as stated: a request carrying the header \<open>Authorization: Bearer\<close> with an empty
  token resolves the session a submission has created and passes the gate. The value
  of such a header line is \<open>Bearer\<close> followed by a space; the handler receives it
  without the space, finds no prefix \<open>Bearer\<close> with its space, resolves no session
  and answers \<open>401 unauthorized\<close> with no invocation of the collaborator, although
  the session of the store has the empty access token.
\<close>

theorem empty_bearer_request_unauthorized:
  "valid_run initial one_submission \<and>
   map (accessToken \<circ> snd) (sessions (run initial one_submission)) = [[]] \<and>
   delivered_header ''Bearer '' = ''Bearer'' \<and>
   getSessionFromRequest (run initial one_submission) (Some (delivered_header ''Bearer '')) = None \<and>
   handleMcpRequest example_platform empty_backend (run initial one_submission)
     (Some (delivered_header ''Bearer '')) (JsonBody (tool_call ''caspio_list_tables'' (Obj [])))
   = ([], Unauthorized)"
  by (simp only: list_tables_empty_bearer)
     (simp add: valid_one_submission delivered_empty_bearer bearer_alone_unresolved
        run_one_submission)

text \<open>
  C10, amended: a submission answered with the redirect leaves the new session stored
  with the empty string as access token, and \<open>getSessionFromRequest\<close> compares the
  token by equality only, so that the value \<open>Bearer\<close> followed by one space and nothing
  else would resolve a session whose access token is empty (the new one, when no
  session of the old state had an empty access token). No request delivers that value:
  a header value arrives without the spaces around it, so whatever the header line, a
  session it resolves has a non-empty access token; the line \<open>Authorization: Bearer\<close>
  with an empty token resolves no session, is handled as a request without the header,
  and is answered \<open>unauthorized\<close> when its method needs a session.
\<close>

theorem empty_bearer_is_not_delivered:
  assumes "handleAuthorizeSubmit s ps env = (s', Redirect uri c st)"
  shows "\<exists>session. map_of (sessions s') (sessionDraw env) = Some session \<and>
           accessToken session = [] \<and>
           (\<exists>resolved. getSessionFromRequest s' (Some ''Bearer '') = Some resolved \<and>
              accessToken resolved = []) \<and>
           ((\<forall>p \<in> set (sessions s). accessToken (snd p) \<noteq> []) \<longrightarrow>
              getSessionFromRequest s' (Some ''Bearer '') = Some session) \<and>
           (\<forall>raw. delivered_header raw \<noteq> ''Bearer '' \<and>
              (\<forall>resolved. getSessionFromRequest s' (Some (delivered_header raw)) = Some resolved
                 \<longrightarrow> accessToken resolved \<noteq> [])) \<and>
           getSessionFromRequest s' (Some (delivered_header ''Bearer '')) = None \<and>
           (\<forall>pf backend b.
              handleMcpRequest pf backend s' (Some (delivered_header ''Bearer '')) b
                = handleMcpRequest pf backend s' None b) \<and>
           (\<forall>pf backend rpcRequest.
              rpcRequest \<noteq> Null \<and> rpcRequest \<noteq> Undefined \<and>
              \<not> isl (stringOf pf (getp rpcRequest ''method'')) \<and>
              \<not> isl (stringOf pf (getp rpcRequest ''id'')) \<and>
              getp rpcRequest ''method'' \<notin> Str ` set unauthenticatedMethods \<longrightarrow>
              handleMcpRequest pf backend s' (Some (delivered_header ''Bearer ''))
                (JsonBody rpcRequest) = ([], Unauthorized))"
proof -
  let ?new = "\<lparr>caspioBaseUrl = the (map_option strip_trailing_slash (param_get ps ''caspio_base_url'')),
             caspioClientId = the (param_get ps ''caspio_client_id''),
             caspioClientSecret = the (param_get ps ''caspio_client_secret''),
             accessToken = [], refreshToken = [],
             expiresAt = nowExpires env + 86400000, createdAt = nowCreated env\<rparr>"
  from submit_redirect [OF assms] have
    ss: "sessions s' = AList.update (sessionDraw env) ?new (sessions s)"
    by blast
  have stored: "map_of (sessions s') (sessionDraw env) = Some ?new"
    by (simp add: ss AList.update_conv')
  have blank: "accessToken ?new = []" by simp
  from find_blank_exists [of "\<lambda>session. accessToken session = []" ?new "sessionDraw env" "sessions s"]
  obtain resolved where
    res: "getSessionFromRequest s' (Some ''Bearer '') = Some resolved"
    and rb: "accessToken resolved = []"
    by (auto simp: getSessionFromRequest_def ss)
  have exact: "getSessionFromRequest s' (Some ''Bearer '') = Some ?new"
    if "\<forall>p \<in> set (sessions s). accessToken (snd p) \<noteq> []"
    using find_updated_blank [of "sessions s" "\<lambda>session. accessToken session = []" ?new
        "sessionDraw env"] that
    by (simp add: getSessionFromRequest_def ss)
  have never: "delivered_header raw \<noteq> ''Bearer ''" for raw
    using delivered_bearer_token [of raw] by auto
  have issued: "accessToken resolved \<noteq> []"
    if "getSessionFromRequest s' (Some (delivered_header raw)) = Some resolved" for raw resolved
    using that by (rule delivered_resolves_issued)
  have none: "getSessionFromRequest s' (Some (delivered_header ''Bearer '')) = None"
    by (simp add: delivered_empty_bearer bearer_alone_unresolved)
  have same: "handleMcpRequest pf backend s' (Some (delivered_header ''Bearer '')) b
                = handleMcpRequest pf backend s' None b" for pf backend b
    using none by (rule unresolved_as_no_header)
  have gate: "handleMcpRequest pf backend s' (Some (delivered_header ''Bearer ''))
                (JsonBody rpcRequest) = ([], Unauthorized)"
    if "rpcRequest \<noteq> Null \<and> rpcRequest \<noteq> Undefined \<and>
        \<not> isl (stringOf pf (getp rpcRequest ''method'')) \<and>
        \<not> isl (stringOf pf (getp rpcRequest ''id'')) \<and>
        getp rpcRequest ''method'' \<notin> Str ` set unauthenticatedMethods"
    for pf backend rpcRequest
    using that none by (simp add: handleMcpRequest_def)
  from stored blank res rb exact never issued none same gate show ?thesis by blast
qed

theorem empty_bearer_is_not_delivered_witness:
  "valid_run initial one_submission \<and>
   getSessionFromRequest (run initial one_submission) (Some ''Bearer '')
     = Some \<lparr>caspioBaseUrl = ''https://c1abc123.caspio.com'', caspioClientId = ''id'',
          caspioClientSecret = ''secret'', accessToken = [], refreshToken = [],
          expiresAt = 86402000, createdAt = 2000\<rparr> \<and>
   getSessionFromRequest (run initial one_submission) (Some (delivered_header ''Bearer '')) = None \<and>
   handleMcpRequest example_platform empty_backend (run initial one_submission)
     (Some (delivered_header ''Bearer '')) (JsonBody (tool_call ''caspio_list_tables'' (Obj [])))
   = ([], Unauthorized)"
proof -
  let ?req = "tool_call ''caspio_list_tables'' (Obj [])"
  from empty_bearer_is_not_delivered [OF submit_pending_state]
  obtain session where
    stored: "map_of (sessions (run initial one_submission))
               (sessionDraw (submit_ok (hexid CHR ''2'') (hexid CHR ''3'') 2000)) = Some session"
    and exact: "(\<forall>p \<in> set (sessions pending_state). accessToken (snd p) \<noteq> []) \<longrightarrow>
                getSessionFromRequest (run initial one_submission) (Some ''Bearer '')
                  = Some session"
    and none: "getSessionFromRequest (run initial one_submission)
                 (Some (delivered_header ''Bearer '')) = None"
    and gate: "?req \<noteq> Null \<and> ?req \<noteq> Undefined \<and>
               \<not> isl (stringOf example_platform (getp ?req ''method'')) \<and>
               \<not> isl (stringOf example_platform (getp ?req ''id'')) \<and>
               getp ?req ''method'' \<notin> Str ` set unauthenticatedMethods \<longrightarrow>
               handleMcpRequest example_platform empty_backend (run initial one_submission)
                 (Some (delivered_header ''Bearer '')) (JsonBody ?req) = ([], Unauthorized)"
    by blast
  have old: "\<forall>p \<in> set (sessions pending_state). accessToken (snd p) \<noteq> []"
    by (simp add: pending_state_eval)
  have req: "?req \<noteq> Null \<and> ?req \<noteq> Undefined \<and>
             \<not> isl (stringOf example_platform (getp ?req ''method'')) \<and>
             \<not> isl (stringOf example_platform (getp ?req ''id'')) \<and>
             getp ?req ''method'' \<notin> Str ` set unauthenticatedMethods"
    by (simp add: tool_call_def getp_def example_platform_def unauthenticatedMethods_def image_iff)
  from stored have "session = \<lparr>caspioBaseUrl = ''https://c1abc123.caspio.com'',
          caspioClientId = ''id'', caspioClientSecret = ''secret'', accessToken = [],
          refreshToken = [], expiresAt = 86402000, createdAt = 2000\<rparr>"
    by (simp add: run_one_submission submit_ok_def)
  with exact old none gate req valid_one_submission show ?thesis by simp
qed

end
